theory Spec2Isabelle
  imports Complex_Main "HOL-Library.Word"
begin

section \<open>Values, errors and the engine interface\<close>

text \<open>
  The binding of \<^verbatim>\<open>monetdbe/_cffi/internal.py\<close> is glue around the engine library
  \<^verbatim>\<open>lib\<close>. The engine, the type tables of \<^verbatim>\<open>convert.py\<close> and \<^verbatim>\<open>check_error\<close>
  of \<^verbatim>\<open>errors.py\<close> are not part of the verified sources, so they are parameters of the
  model, collected in the record \<open>lib\<close> below. Every call into the engine is appended
  to a log, so that "the engine was (not) called" is a statement about that log.

  SQL text, names, paths and messages are \<open>string\<close>s; each \<open>char\<close> stands for the code
  point of the same number (U+0000 to U+00FF). A text bound to a prepared statement is any
  Python text: a list of code points. A C pointer is a \<open>nat\<close>, with \<open>0\<close> for \<^verbatim>\<open>NULL\<close>.
\<close>

type_synonym bytes = "8 word list"
type_synonym pointer = nat

type_synonym pystr = "nat list"

text \<open>
  \<^verbatim>\<open>str.encode()\<close> is UTF-8: one to four bytes for a code point, by its size. The code
  points U+D800 to U+DFFF (surrogates) have no encoding, and no text holds a number from
  U+110000 on.
\<close>

definition utf8_char :: "nat \<Rightarrow> nat list" where
  "utf8_char n =
     (if n < 128 then [n]
      else if n < 2048 then [192 + n div 64, 128 + n mod 64]
      else if n < 65536 then [224 + n div 4096, 128 + n div 64 mod 64, 128 + n mod 64]
      else [240 + n div 262144, 128 + n div 4096 mod 64, 128 + n div 64 mod 64, 128 + n mod 64])"

definition encodable :: "nat \<Rightarrow> bool" where
  "encodable n = (n < 55296 \<or> (57344 \<le> n \<and> n < 1114112))"

definition encode_char :: "char \<Rightarrow> bytes" where
  "encode_char c = map of_nat (utf8_char (of_char c))"

definition encode :: "string \<Rightarrow> bytes" where
  "encode s = concat (map encode_char s)"

definition pytext :: "string \<Rightarrow> pystr" where
  "pytext s = map of_char s"

text \<open>
  Reading UTF-8, strictly: \<open>utf8_decode_from k lo acc bs\<close> has \<open>k\<close> continuation bytes to
  read for the code point begun in \<open>acc\<close>, which must come out at \<open>lo\<close> or above (the
  shortest form only) and must be a code point that has an encoding.
\<close>

fun utf8_decode_from :: "nat \<Rightarrow> nat \<Rightarrow> nat \<Rightarrow> nat list \<Rightarrow> pystr option" where
  "utf8_decode_from 0 lo acc [] = Some []"
| "utf8_decode_from (Suc k) lo acc [] = None"
| "utf8_decode_from 0 lo acc (b # bs) =
     (if b < 128 then map_option ((#) b) (utf8_decode_from 0 0 0 bs)
      else if 192 \<le> b \<and> b < 224 then utf8_decode_from (Suc 0) 128 (b - 192) bs
      else if 224 \<le> b \<and> b < 240 then utf8_decode_from (Suc (Suc 0)) 2048 (b - 224) bs
      else if 240 \<le> b \<and> b < 248 then utf8_decode_from (Suc (Suc (Suc 0))) 65536 (b - 240) bs
      else None)"
| "utf8_decode_from (Suc k) lo acc (b # bs) =
     (if 128 \<le> b \<and> b < 192 then
        (if k = 0 then
           (if lo \<le> acc * 64 + (b - 128) \<and> encodable (acc * 64 + (b - 128))
            then map_option ((#) (acc * 64 + (b - 128))) (utf8_decode_from 0 0 0 bs)
            else None)
         else utf8_decode_from k lo (acc * 64 + (b - 128)) bs)
      else None)"

definition utf8_decode :: "bytes \<Rightarrow> pystr option" where
  "utf8_decode b = utf8_decode_from 0 0 0 (map unat b)"

text \<open>
  A Python \<^verbatim>\<open>float\<close> by its value: not a number, an infinity with its sign, or a finite
  number (the two zeros are the one number 0).
\<close>

datatype pyfloat = NaN | Infinity bool | Finite rat

text \<open>The Python values the binding handles.\<close>

datatype pyval = PNone | PBool bool | PInt int | PFloat pyfloat | PStr pystr | PObj nat

text \<open>Truth value of a Python object, as \<^verbatim>\<open>if x:\<close> tests it.\<close>

fun truthy :: "pyval \<Rightarrow> bool" where
  "truthy PNone = False"
| "truthy (PBool b) = b"
| "truthy (PInt i) = (i \<noteq> 0)"
| "truthy (PFloat x) = (x \<noteq> Finite 0)"
| "truthy (PStr s) = (s \<noteq> [])"
| "truthy (PObj _) = True"

text \<open>
  Python's and numpy's \<^verbatim>\<open>==\<close>: numbers are compared by value (a \<^verbatim>\<open>bool\<close> is the integer
  0 or 1), and a float that is not a number equals nothing, itself included.
\<close>

fun py_eq :: "pyval \<Rightarrow> pyval \<Rightarrow> bool" where
  "py_eq (PBool a) (PInt i) = (i = (if a then 1 else 0))"
| "py_eq (PInt i) (PBool a) = (i = (if a then 1 else 0))"
| "py_eq (PFloat x) (PFloat y) = (x \<noteq> NaN \<and> y \<noteq> NaN \<and> x = y)"
| "py_eq (PFloat x) (PInt i) = (x = Finite (of_int i))"
| "py_eq (PInt i) (PFloat x) = (x = Finite (of_int i))"
| "py_eq (PFloat x) (PBool a) = (x = Finite (if a then 1 else 0))"
| "py_eq (PBool a) (PFloat x) = (x = Finite (if a then 1 else 0))"
| "py_eq a b = (a = b)"

fun str_nat :: "nat \<Rightarrow> string" where
  "str_nat n =
     (if n < 10 then [char_of (48 + n)]
      else str_nat (n div 10) @ [char_of (48 + n mod 10)])"

declare str_nat.simps [simp del]

definition str_int :: "int \<Rightarrow> string" where
  "str_int i = (if i < 0 then CHR ''-'' # str_nat (nat (- i)) else str_nat (nat i))"

text \<open>Reading a decimal numeral back.\<close>

definition read_nat :: "string \<Rightarrow> nat" where
  "read_nat s = foldl (\<lambda>a c. 10 * a + (of_char c - 48)) 0 s"

definition read_int :: "string \<Rightarrow> int" where
  "read_int s = (case s of [] \<Rightarrow> 0 | c # r \<Rightarrow> if c = CHR ''-'' then - int (read_nat r) else int (read_nat s))"

text \<open>\<^verbatim>\<open>sep.join(xs)\<close>\<close>

fun join :: "string \<Rightarrow> string list \<Rightarrow> string" where
  "join sep [] = []"
| "join sep [x] = x"
| "join sep (x # y # ys) = x @ sep @ join sep (y # ys)"

datatype error =
    OperationalError string
  | ProgrammingError string
  | ValueError string
  | KeyError
  | IndexError
  | TypeError
  | UnicodeEncodeError
  | OverflowError
  | OtherError string

definition str_encode :: "pystr \<Rightarrow> error + bytes" where
  "str_encode s =
     (if list_all encodable s then Inr (map of_nat (concat (map utf8_char s)))
      else Inl UnicodeEncodeError)"

record monetdbe_options =
  opt_memorylimit :: int
  opt_querytimeout :: int
  opt_sessiontimeout :: int
  opt_nr_threads :: int

record monetdbe_column =
  col_type :: int
  col_count :: nat
  col_name :: bytes
  col_data :: pointer

record monetdbe_result =
  res_ptr :: pointer
  ncols :: nat
  nrows :: nat

text \<open>
  The log of engine calls. An \<^verbatim>\<open>open\<close> and a \<^verbatim>\<open>close\<close> are logged with what the
  engine answered; the other calls with their arguments.
\<close>

datatype call =
    Call_open "bytes option" monetdbe_options int pointer
  | Call_close pointer int
  | Call_error pointer
  | Call_query pointer bytes bool
  | Call_set_autocommit pointer int
  | Call_in_transaction pointer
  | Call_append pointer bytes bytes "monetdbe_column list" nat
  | Call_prepare pointer bytes
  | Call_get_columns pointer bytes bytes
  | Call_cleanup_result pointer pointer
  | Call_bind pointer bytes int
  | Call_result_fetch pointer nat

text \<open>One row of \<^verbatim>\<open>monet_numpy_map\<close>: the C type's name, the numpy type and the null value.\<close>

record numpy_type =
  type_is_object :: bool
  itemsize :: nat
  item :: "bytes \<Rightarrow> pyval"

record map_entry =
  cast_string :: string
  map_numpy_type :: numpy_type
  monetdbe_null :: pyval

text \<open>An array handed to \<^verbatim>\<open>append\<close>: its dtype, its shape and where its items are.\<close>

record np_array =
  dtype :: string
  shape :: "nat list"
  buffer :: pointer

text \<open>
  The parameters. An engine function answers from the log so far and its arguments;
  a \<^verbatim>\<open>char*\<close> error message is \<open>None\<close> for \<^verbatim>\<open>NULL\<close>.
\<close>

record lib =
  monetdbe_open :: "call list \<Rightarrow> bytes option \<Rightarrow> monetdbe_options \<Rightarrow> int \<times> pointer"
  monetdbe_close :: "call list \<Rightarrow> pointer \<Rightarrow> int"
  monetdbe_error :: "call list \<Rightarrow> pointer \<Rightarrow> string"
  monetdbe_query :: "call list \<Rightarrow> pointer \<Rightarrow> bytes \<Rightarrow> bool \<Rightarrow> string option \<times> monetdbe_result \<times> int"
  monetdbe_set_autocommit :: "call list \<Rightarrow> pointer \<Rightarrow> int \<Rightarrow> string option"
  monetdbe_in_transaction :: "call list \<Rightarrow> pointer \<Rightarrow> int"
  monetdbe_append :: "call list \<Rightarrow> pointer \<Rightarrow> bytes \<Rightarrow> bytes \<Rightarrow> monetdbe_column list \<Rightarrow> nat \<Rightarrow> string option"
  monetdbe_prepare :: "call list \<Rightarrow> pointer \<Rightarrow> bytes \<Rightarrow> string option \<times> pointer"
  monetdbe_get_columns :: "call list \<Rightarrow> pointer \<Rightarrow> bytes \<Rightarrow> bytes \<Rightarrow> string option \<times> (string \<times> int) list"
  monetdbe_cleanup_result :: "call list \<Rightarrow> pointer \<Rightarrow> pointer \<Rightarrow> string option"
  monetdbe_bind :: "call list \<Rightarrow> pointer \<Rightarrow> bytes \<Rightarrow> int \<Rightarrow> string option"
  monetdbe_result_fetch :: "call list \<Rightarrow> pointer \<Rightarrow> nat \<Rightarrow> string option \<times> monetdbe_column"
  memory :: "pointer \<Rightarrow> 8 word"
  check_error :: "string option \<Rightarrow> error option"
  resolve :: "string \<Rightarrow> string"
  make_string :: "bytes \<Rightarrow> string"
  monet_numpy_map :: "int \<rightharpoonup> map_entry"
  numpy_monetdb_map :: "string \<Rightarrow> error + string \<times> int"
  extract_value :: "monetdbe_column \<Rightarrow> nat \<Rightarrow> error + pyval"
  astype :: "string \<Rightarrow> pyval list \<Rightarrow> error + pyval list"
  monetdbe_str :: int
  monetdbe_date :: int
  monetdbe_time :: int
  monetdbe_timestamp :: int
  object_str :: "nat \<Rightarrow> error + pystr"
  float_str :: "pyfloat \<Rightarrow> string"
  ffi_from_buffer :: "np_array \<Rightarrow> error + pointer"
  ffi_cast :: "string \<Rightarrow> pointer \<Rightarrow> error + pointer"

text \<open>
  \<^verbatim>\<open>str(x)\<close>. How a float prints, and what \<^verbatim>\<open>__str__\<close> of an object of another class
  returns or raises, are parameters.
\<close>

fun py_str :: "lib \<Rightarrow> pyval \<Rightarrow> error + pystr" where
  "py_str L PNone = Inr (pytext ''None'')"
| "py_str L (PBool b) = Inr (pytext (if b then ''True'' else ''False''))"
| "py_str L (PInt i) = Inr (pytext (str_int i))"
| "py_str L (PFloat x) = Inr (pytext (float_str L x))"
| "py_str L (PStr s) = Inr s"
| "py_str L (PObj n) = object_str L n"

section \<open>The class \<^verbatim>\<open>Internal\<close>\<close>

text \<open>
  An object of the class has its configuration and its identity (\<open>ident\<close>: Python
  compares \<^verbatim>\<open>self._active_context == self\<close> by identity). \<^verbatim>\<open>_active_context\<close>,
  \<^verbatim>\<open>in_memory_active\<close> and \<^verbatim>\<open>_connection\<close> are attributes of the class, written only
  through class methods, so they are one state shared by all objects: the record
  \<open>world\<close>, which also carries the log of engine calls and the warnings issued.
  A \<^verbatim>\<open>Path\<close> is always true in a test, so \<^verbatim>\<open>not self.dbdir\<close> is \<open>dbdir self = None\<close>.
\<close>

record Internal =
  ident :: nat
  dbdir :: "string option"
  memorylimit :: int
  querytimeout :: int
  sessiontimeout :: int
  nr_threads :: int
  have_hge :: bool

record world =
  active_context :: "nat option"
  in_memory_active :: bool
  connection :: "pointer option"
  calls :: "call list"
  warnings :: "string list"

type_synonym 'a action = "world \<Rightarrow> (error + 'a) \<times> world"

definition log :: "call \<Rightarrow> world \<Rightarrow> world" where
  "log c w = w\<lparr>calls := calls w @ [c]\<rparr>"

text \<open>Sequencing: an exception ends the computation with the state reached.\<close>

definition bindM :: "'a action \<Rightarrow> ('a \<Rightarrow> 'b action) \<Rightarrow> 'b action" where
  "bindM m f w = (case m w of (Inl e, w1) \<Rightarrow> (Inl e, w1) | (Inr x, w1) \<Rightarrow> f x w1)"

text \<open>\<^verbatim>\<open>if self._connection:\<close> holds for a pointer that is not \<^verbatim>\<open>NULL\<close>.\<close>

definition held :: "pointer option \<Rightarrow> pointer list" where
  "held c = (case c of None \<Rightarrow> [] | Some h \<Rightarrow> if h = 0 then [] else [h])"

definition errors :: "int \<Rightarrow> string" where
  "errors result_code =
     (if result_code = 0 then ''OK''
      else if result_code = - 1 then ''Allocation failed''
      else if result_code = - 2 then ''Error in DB''
      else ''unknown error'')"

definition open_message :: "string \<Rightarrow> int \<Rightarrow> string" where
  "open_message err result_code =
     ''Failed to open database: '' @ err @ '' (code '' @ str_int result_code @ '')''"

definition open_url :: "lib \<Rightarrow> Internal \<Rightarrow> bytes option" where
  "open_url L self = (case dbdir self of None \<Rightarrow> None | Some p \<Rightarrow> Some (encode (resolve L p)))"

definition open_options :: "Internal \<Rightarrow> monetdbe_options" where
  "open_options self =
     \<lparr>opt_memorylimit = memorylimit self, opt_querytimeout = querytimeout self,
      opt_sessiontimeout = sessiontimeout self, opt_nr_threads = nr_threads self\<rparr>"

definition open_db :: "lib \<Rightarrow> Internal \<Rightarrow> pointer action" where
  "open_db L self w =
     (let url = open_url L self;
          p_options = open_options self;
          (result_code, conn) = monetdbe_open L (calls w) url p_options;
          w1 = log (Call_open url p_options result_code conn) w
      in if result_code \<noteq> 0 then
           (if result_code = - 2 then
              (let err = monetdbe_error L (calls w1) conn;
                   w2 = log (Call_error conn) w1;
                   w3 = log (Call_close conn (monetdbe_close L (calls w2) conn)) w2
               in (Inl (OperationalError (open_message err result_code)), w3))
            else (Inl (OperationalError (open_message (errors result_code) result_code)), w1))
         else (Inr conn, w1))"

definition close :: "lib \<Rightarrow> Internal \<Rightarrow> unit action" where
  "close L self w =
     (let r = (case connection w of
                 Some h \<Rightarrow>
                   if h \<noteq> 0 then
                     (let rc = monetdbe_close L (calls w) h; w1 = log (Call_close h rc) w
                      in if rc \<noteq> 0 then (Inl (OperationalError ''Failed to close database''), w1)
                         else (Inr (), w1\<lparr>connection := None\<rparr>))
                   else (Inr (), w)
               | None \<Rightarrow> (Inr (), w))
      in case r of
           (Inl e, w1) \<Rightarrow> (Inl e, w1)
         | (Inr _, w1) \<Rightarrow>
             (let w2 = (if active_context w1 \<noteq> None then w1\<lparr>active_context := None\<rparr> else w1);
                  w3 = (if dbdir self = None then w2\<lparr>in_memory_active := True\<rparr> else w2)
              in (Inr (), w3)))"

definition switch :: "lib \<Rightarrow> Internal \<Rightarrow> unit action" where
  "switch L self w =
     (if active_context w = Some (ident self) then (Inr (), w)
      else bindM (close L self) (\<lambda>_. bindM (open_db L self) (\<lambda>c w2.
             (let w3 = w2\<lparr>connection := Some c\<rparr>;
                  w4 = w3\<lparr>active_context := Some (ident self)\<rparr>;
                  w5 = (if dbdir self = None then w4\<lparr>in_memory_active := True\<rparr> else w4)
              in (Inr (), w5)))) w)"

text \<open>\<^verbatim>\<open>__init__\<close> stores the configuration and calls \<^verbatim>\<open>_switch\<close>.\<close>

definition init :: "lib \<Rightarrow> Internal \<Rightarrow> unit action" where
  "init L self = switch L self"

text \<open>
  \<^verbatim>\<open>self._connection\<close> as an argument of an engine function: cffi refuses \<^verbatim>\<open>None\<close>
  for a pointer with a \<^verbatim>\<open>TypeError\<close>.
\<close>

definition with_connection :: "(pointer \<Rightarrow> 'a action) \<Rightarrow> 'a action" where
  "with_connection f w = (case connection w of None \<Rightarrow> (Inl TypeError, w) | Some h \<Rightarrow> f h w)"

definition raise_or :: "lib \<Rightarrow> string option \<Rightarrow> 'a \<Rightarrow> 'a action" where
  "raise_or L msg x w = (case check_error L msg of Some e \<Rightarrow> (Inl e, w) | None \<Rightarrow> (Inr x, w))"

definition query :: "lib \<Rightarrow> Internal \<Rightarrow> string \<Rightarrow> bool \<Rightarrow> (monetdbe_result option \<times> int) action" where
  "query L self q make_result =
     bindM (switch L self) (\<lambda>_. with_connection (\<lambda>h w.
       (let (msg, res, affected_rows) = monetdbe_query L (calls w) h (encode q) make_result
        in raise_or L msg (if make_result then Some res else None, affected_rows)
             (log (Call_query h (encode q) make_result) w))))"

definition set_autocommit :: "lib \<Rightarrow> Internal \<Rightarrow> bool \<Rightarrow> unit action" where
  "set_autocommit L self v =
     bindM (switch L self) (\<lambda>_. with_connection (\<lambda>h w.
       (let i = (if v then 1 else 0)
        in raise_or L (monetdbe_set_autocommit L (calls w) h i) ()
             (log (Call_set_autocommit h i) w))))"

definition in_transaction :: "lib \<Rightarrow> Internal \<Rightarrow> bool action" where
  "in_transaction L self =
     bindM (switch L self) (\<lambda>_. with_connection (\<lambda>h w.
       (Inr (monetdbe_in_transaction L (calls w) h \<noteq> 0), log (Call_in_transaction h) w)))"

definition prepare :: "lib \<Rightarrow> Internal \<Rightarrow> string \<Rightarrow> pointer action" where
  "prepare L self q =
     bindM (switch L self) (\<lambda>_. with_connection (\<lambda>h w.
       (let (msg, stmt) = monetdbe_prepare L (calls w) h (encode q)
        in raise_or L msg stmt (log (Call_prepare h (encode q)) w))))"

text \<open>
  \<^verbatim>\<open>get_columns\<close> is a generator; its body runs when the caller first asks for an item.
  The model is the generator run to its end, as \<^verbatim>\<open>list(self.get_columns(...))\<close> does.
  The engine fills in the count, the names and the types; what the call returns is dropped.
\<close>

definition get_columns :: "lib \<Rightarrow> Internal \<Rightarrow> string \<Rightarrow> string \<Rightarrow> (string \<times> int) list action" where
  "get_columns L self table schema =
     bindM (switch L self) (\<lambda>_. with_connection (\<lambda>h w.
       (let (msg, columns) = monetdbe_get_columns L (calls w) h (encode schema) (encode table)
        in (Inr columns, log (Call_get_columns h (encode schema) (encode table)) w))))"

text \<open>
  \<^verbatim>\<open>if result and self._connection:\<close> a result is \<^verbatim>\<open>None\<close> or a pointer to the engine's
  result structure.
\<close>

definition cleanup_result :: "lib \<Rightarrow> Internal \<Rightarrow> monetdbe_result option \<Rightarrow> unit action" where
  "cleanup_result L self result w =
     (case result of
        None \<Rightarrow> (Inr (), w)
      | Some r \<Rightarrow>
          (case connection w of
             None \<Rightarrow> (Inr (), w)
           | Some h \<Rightarrow>
               if res_ptr r \<noteq> 0 \<and> h \<noteq> 0 then
                 raise_or L (monetdbe_cleanup_result L (calls w) h (res_ptr r)) ()
                   (log (Call_cleanup_result h (res_ptr r)) w)
               else (Inr (), w)))"

section \<open>Bulk append\<close>

definition quoted :: "string \<Rightarrow> string" where
  "quoted s = [CHR 0x27] @ s @ [CHR 0x27]"

definition names_message :: "string list \<Rightarrow> string list \<Rightarrow> string" where
  "names_message keys existing_names =
     ''Appended column names ('' @ join '', '' keys @ '') don'' @ [CHR 0x27] @
     ''t match existing column names ('' @ join '', '' existing_names @ '')''"

definition type_message :: "string \<Rightarrow> string \<Rightarrow> string \<Rightarrow> string" where
  "type_message work_type_string column_name existing_type_string =
     ''Type '' @ quoted work_type_string @ '' for appended column '' @ quoted column_name @
     '' does not match table type '' @ quoted existing_type_string"

text \<open>
  The loop over \<^verbatim>\<open>enumerate(existing_columns)\<close>. The dictionary \<^verbatim>\<open>data\<close> is an association
  list (the order of its keys shows in a message); \<^verbatim>\<open>work_columns\<close> has \<^verbatim>\<open>n_columns\<close> slots.
  A column passes its type check and then has its descriptor filled in (\<open>fill_column\<close>)
  and stored, all before the next column is looked at: \<^verbatim>\<open>shape[0]\<close> of an array without
  dimensions is an \<^verbatim>\<open>IndexError\<close>, and \<^verbatim>\<open>ffi.from_buffer\<close> and \<^verbatim>\<open>ffi.cast\<close> raise what cffi
  decides.
\<close>

definition fill_column :: "lib \<Rightarrow> string \<Rightarrow> int \<Rightarrow> string \<Rightarrow> np_array \<Rightarrow> error + monetdbe_column" where
  "fill_column L work_type_string work_type column_name column_values =
     (case shape column_values of
        [] \<Rightarrow> Inl IndexError
      | count # _ \<Rightarrow>
          (case ffi_from_buffer L column_values of
             Inl e \<Rightarrow> Inl e
           | Inr p \<Rightarrow>
               (case ffi_cast L (work_type_string @ '' *'') p of
                  Inl e \<Rightarrow> Inl e
                | Inr d \<Rightarrow>
                    Inr \<lparr>col_type = work_type, col_count = count,
                         col_name = encode column_name, col_data = d\<rparr>)))"

fun append_loop :: "lib \<Rightarrow> (string \<times> np_array) list \<Rightarrow> nat \<Rightarrow> nat \<Rightarrow> (string \<times> int) list
    \<Rightarrow> error + monetdbe_column list" where
  "append_loop L data n_columns column_num [] = Inr []"
| "append_loop L data n_columns column_num ((column_name, existing_type) # rest) =
     (case map_of data column_name of
        None \<Rightarrow> Inl KeyError
      | Some column_values \<Rightarrow>
          (case numpy_monetdb_map L (dtype column_values) of
             Inl e \<Rightarrow> Inl e
           | Inr (work_type_string, work_type) \<Rightarrow>
               if work_type \<noteq> existing_type then
                 (case monet_numpy_map L existing_type of
                    None \<Rightarrow> Inl KeyError
                  | Some entry \<Rightarrow>
                      Inl (ProgrammingError
                             (type_message work_type_string column_name (cast_string entry))))
               else
                 (case fill_column L work_type_string work_type column_name column_values of
                    Inl e \<Rightarrow> Inl e
                  | Inr work_column \<Rightarrow>
                      if n_columns \<le> column_num then Inl IndexError
                      else
                        (case append_loop L data n_columns (Suc column_num) rest of
                           Inl e \<Rightarrow> Inl e
                         | Inr work_columns \<Rightarrow> Inr (work_column # work_columns)))))"

text \<open>\<^verbatim>\<open>append\<close>, from the line that unpacks \<^verbatim>\<open>zip(*existing_columns)\<close> on.\<close>

definition append_existing :: "lib \<Rightarrow> string \<Rightarrow> (string \<times> np_array) list \<Rightarrow> string
    \<Rightarrow> (string \<times> int) list \<Rightarrow> unit action" where
  "append_existing L table data schema existing_columns w =
     (let n_columns = length data
      in if existing_columns = [] then (Inl (ValueError ''not enough values to unpack''), w)
         else
           (let existing_names = map fst existing_columns
            in if set existing_names \<noteq> set (map fst data) then
                 (Inl (ProgrammingError (names_message (map fst data) existing_names)), w)
               else
                 (case append_loop L data n_columns 0 existing_columns of
                    Inl e \<Rightarrow> (Inl e, w)
                  | Inr work_columns \<Rightarrow>
                      with_connection (\<lambda>h w.
                        raise_or L
                          (monetdbe_append L (calls w) h (encode schema) (encode table)
                             work_columns n_columns) ()
                          (log (Call_append h (encode schema) (encode table) work_columns n_columns) w))
                        w)))"

definition append_table :: "lib \<Rightarrow> Internal \<Rightarrow> string \<Rightarrow> (string \<times> np_array) list \<Rightarrow> string \<Rightarrow> unit action" where
  "append_table L self table data schema =
     bindM (switch L self) (\<lambda>_.
     bindM (get_columns L self table schema) (append_existing L table data schema))"

section \<open>Prepared statements\<close>

text \<open>
  The arguments are evaluated first: \<^verbatim>\<open>str(data)\<close> and its \<^verbatim>\<open>encode()\<close> can raise. The
  parameter number is a \<^verbatim>\<open>size_t\<close> of the engine function (64 bits): cffi refuses a number
  outside its range with an \<^verbatim>\<open>OverflowError\<close>, before the engine is called.
\<close>

definition fits_size_t :: "int \<Rightarrow> bool" where
  "fits_size_t n = (0 \<le> n \<and> n < 2 ^ 64)"

definition bind :: "lib \<Rightarrow> pointer \<Rightarrow> pyval \<Rightarrow> int \<Rightarrow> unit action" where
  "bind L statement data parameter_nr w =
     (case py_str L data of
        Inl e \<Rightarrow> (Inl e, w)
      | Inr s \<Rightarrow>
          (case str_encode s of
             Inl e \<Rightarrow> (Inl e, w)
           | Inr b \<Rightarrow>
               if fits_size_t parameter_nr then
                 raise_or L (monetdbe_bind L (calls w) statement b parameter_nr) ()
                   (log (Call_bind statement b parameter_nr) w)
               else (Inl OverflowError, w)))"

section \<open>Results as arrays\<close>

text \<open>
  An array is either a view of engine memory (\<^verbatim>\<open>np.frombuffer\<close> over \<^verbatim>\<open>ffi.buffer\<close>: the
  pointer, the number of items and their type; nothing is copied) or owns its items
  (\<^verbatim>\<open>np.array\<close> of a Python list, and what \<^verbatim>\<open>astype\<close> returns).
\<close>

datatype ndarray = Frombuffer pointer nat numpy_type | Array "pyval list"

fun items :: "lib \<Rightarrow> ndarray \<Rightarrow> pyval list" where
  "items L (Frombuffer p n t) =
     map (\<lambda>i. item t (map (\<lambda>k. memory L (p + i * itemsize t + k)) [0..<itemsize t])) [0..<n]"
| "items L (Array xs) = xs"

datatype mask_array = Nomask | Mask "bool list"

record masked_array =
  ma_data :: ndarray
  ma_mask :: mask_array

definition result_fetch :: "lib \<Rightarrow> monetdbe_result \<Rightarrow> nat \<Rightarrow> monetdbe_column action" where
  "result_fetch L result column w =
     (let (msg, rcol) = monetdbe_result_fetch L (calls w) (res_ptr result) column
      in raise_or L msg rcol (log (Call_result_fetch (res_ptr result) column) w))"

text \<open>\<^verbatim>\<open>[extract(rcol, r) for r in range(result.nrows)]\<close>\<close>

fun extract_all :: "lib \<Rightarrow> monetdbe_column \<Rightarrow> nat list \<Rightarrow> error + pyval list" where
  "extract_all L rcol [] = Inr []"
| "extract_all L rcol (r # rs) =
     (case extract_value L rcol r of
        Inl e \<Rightarrow> Inl e
      | Inr v \<Rightarrow> (case extract_all L rcol rs of Inl e \<Rightarrow> Inl e | Inr vs \<Rightarrow> Inr (v # vs)))"

definition as_array :: "error + pyval list \<Rightarrow> ndarray action" where
  "as_array r w = (case r of Inl e \<Rightarrow> (Inl e, w) | Inr xs \<Rightarrow> (Inr (Array xs), w))"

definition time_warning :: string where
  "time_warning = ''Not converting column with type column since no proper numpy equivalent''"

text \<open>The body of the loop of \<^verbatim>\<open>result_fetch_numpy\<close>, for column \<open>c\<close>.\<close>

definition fetch_numpy_column :: "lib \<Rightarrow> monetdbe_result \<Rightarrow> nat \<Rightarrow> (string \<times> masked_array) action" where
  "fetch_numpy_column L result c =
     bindM (result_fetch L result c) (\<lambda>rcol w.
       (let name = make_string L (col_name rcol)
        in case monet_numpy_map L (col_type rcol) of
             None \<Rightarrow> (Inl KeyError, w)
           | Some entry \<Rightarrow>
               (let numpy_type = map_numpy_type entry
                in bindM
                     (if type_is_object numpy_type then
                        bindM (as_array (extract_all L rcol [0..<nrows result])) (\<lambda>np_col w.
                          if col_type rcol = monetdbe_str L then
                            as_array (astype L ''str'' (items L np_col)) w
                          else if col_type rcol = monetdbe_date L then
                            as_array (astype L ''datetime64[D]'' (items L np_col)) w
                          else if col_type rcol = monetdbe_time L then
                            (Inr np_col, w\<lparr>warnings := warnings w @ [time_warning]\<rparr>)
                          else if col_type rcol = monetdbe_timestamp L then
                            as_array (astype L ''datetime64[ns]'' (items L np_col)) w
                          else (Inr np_col, w))
                      else
                        (\<lambda>w. if itemsize numpy_type = 0
                              then (Inl (ValueError ''itemsize cannot be zero in type''), w)
                              else (Inr (Frombuffer (col_data rcol) (nrows result) numpy_type), w)))
                     (\<lambda>np_col w.
                        (let mask = (if truthy (monetdbe_null entry)
                                     then Mask (map (\<lambda>x. py_eq x (monetdbe_null entry)) (items L np_col))
                                     else Nomask)
                         in (Inr (name, \<lparr>ma_data = np_col, ma_mask = mask\<rparr>), w)))
                     w)))"

fun fetch_numpy_loop :: "lib \<Rightarrow> monetdbe_result \<Rightarrow> nat list \<Rightarrow> (string \<rightharpoonup> masked_array)
    \<Rightarrow> (string \<rightharpoonup> masked_array) action" where
  "fetch_numpy_loop L result [] result_dict w = (Inr result_dict, w)"
| "fetch_numpy_loop L result (c # cs) result_dict w =
     (case fetch_numpy_column L result c w of
        (Inl e, w1) \<Rightarrow> (Inl e, w1)
      | (Inr (name, masked), w1) \<Rightarrow> fetch_numpy_loop L result cs (result_dict(name \<mapsto> masked)) w1)"

definition result_fetch_numpy :: "lib \<Rightarrow> monetdbe_result \<Rightarrow> (string \<rightharpoonup> masked_array) action" where
  "result_fetch_numpy L result = fetch_numpy_loop L result [0..<ncols result] Map.empty"

section \<open>A small engine for concrete runs\<close>

text \<open>
  An engine that always succeeds: \<^verbatim>\<open>open\<close> hands out a fresh pointer, a table has the
  columns \<open>a\<close> (32-bit integer, tag 3) and \<open>b\<close> (8-bit integer, tag 1). The table of
  types knows these two and a time-of-day type (tag 12) with no null value.
\<close>

definition int8_type :: numpy_type where
  "int8_type = \<lparr>type_is_object = False, itemsize = 1, item = (\<lambda>bs. PInt (sint (hd bs)))\<rparr>"

definition object_type :: numpy_type where
  "object_type = \<lparr>type_is_object = True, itemsize = 8, item = (\<lambda>bs. PNone)\<rparr>"

definition stub_map :: "int \<rightharpoonup> map_entry" where
  "stub_map =
     [1 \<mapsto> \<lparr>cast_string = ''int8_t'', map_numpy_type = int8_type, monetdbe_null = PInt (- 128)\<rparr>,
      3 \<mapsto> \<lparr>cast_string = ''int32_t'', map_numpy_type = int8_type, monetdbe_null = PInt (- 2147483648)\<rparr>,
      12 \<mapsto> \<lparr>cast_string = ''time'', map_numpy_type = object_type, monetdbe_null = PNone\<rparr>]"

definition stub_lib :: lib where
  "stub_lib =
     \<lparr>monetdbe_open = (\<lambda>cs url opts. (0, Suc (length cs))),
      monetdbe_close = (\<lambda>cs h. 0),
      monetdbe_error = (\<lambda>cs h. ''engine says no''),
      monetdbe_query = (\<lambda>cs h q r. (None, \<lparr>res_ptr = 50, ncols = 1, nrows = 2\<rparr>, 0)),
      monetdbe_set_autocommit = (\<lambda>cs h v. None),
      monetdbe_in_transaction = (\<lambda>cs h. 0),
      monetdbe_append = (\<lambda>cs h s t c n. None),
      monetdbe_prepare = (\<lambda>cs h q. (None, 60)),
      monetdbe_get_columns = (\<lambda>cs h s t. (None, [(''a'', 3), (''b'', 1)])),
      monetdbe_cleanup_result = (\<lambda>cs h r. None),
      monetdbe_bind = (\<lambda>cs s b n. None),
      monetdbe_result_fetch =
        (\<lambda>cs r c. (None, \<lparr>col_type = 1, col_count = 2, col_name = encode ''b'', col_data = 100\<rparr>)),
      memory = (\<lambda>p. if p = 100 then 5 else if p = 101 then 128 else 0),
      check_error = map_option OperationalError,
      resolve = (\<lambda>p. p),
      make_string = map (\<lambda>b. char_of (unat b)),
      monet_numpy_map = stub_map,
      numpy_monetdb_map =
        (\<lambda>d. if d = ''int32'' then Inr (''int32_t'', 3)
             else if d = ''int8'' then Inr (''int8_t'', 1)
             else if d = ''float64'' then Inr (''double'', 8)
             else Inl (ProgrammingError ''unsupported dtype'')),
      extract_value = (\<lambda>rcol r. Inr (PObj r)),
      astype = (\<lambda>t xs. Inr xs),
      monetdbe_str = 9, monetdbe_date = 11, monetdbe_time = 12, monetdbe_timestamp = 13,
      object_str = (\<lambda>n. Inr (pytext ''object'')),
      float_str = (\<lambda>x. ''nan''),
      ffi_from_buffer = (\<lambda>a. Inr (buffer a)),
      ffi_cast = (\<lambda>t p. Inr p)\<rparr>"

definition session :: "nat \<Rightarrow> string option \<Rightarrow> Internal" where
  "session i d =
     \<lparr>ident = i, dbdir = d, memorylimit = 0, querytimeout = 0, sessiontimeout = 0,
      nr_threads = 0, have_hge = False\<rparr>"

text \<open>The state of the class when the module is loaded.\<close>

definition world0 :: world where
  "world0 = \<lparr>active_context = None, in_memory_active = False, connection = None,
             calls = [], warnings = []\<rparr>"

text \<open>Engines that fail in one place, and the inputs of the concrete runs below.\<close>

definition failing_open :: lib where
  "failing_open = stub_lib\<lparr>monetdbe_open := (\<lambda>cs url opts. (- 2, 7))\<rparr>"

definition out_of_memory :: lib where
  "out_of_memory = stub_lib\<lparr>monetdbe_open := (\<lambda>cs url opts. (- 1, 0))\<rparr>"

definition failing_close :: lib where
  "failing_close = stub_lib\<lparr>monetdbe_close := (\<lambda>cs h. 1)\<rparr>"

definition strict_lib :: lib where
  "strict_lib = stub_lib\<lparr>monetdbe_cleanup_result :=
      (\<lambda>cs h r. if Call_cleanup_result h r \<in> set cs then Some ''result already released'' else None)\<rparr>"

definition no_table_lib :: lib where
  "no_table_lib = stub_lib\<lparr>monetdbe_get_columns := (\<lambda>cs h s t. (Some ''no such table'', []))\<rparr>"

definition world_file :: world where
  "world_file = \<lparr>active_context = Some 2, in_memory_active = False, connection = Some 5,
                 calls = [], warnings = []\<rparr>"

definition world_open :: world where
  "world_open = \<lparr>active_context = Some 1, in_memory_active = True, connection = Some 5,
                 calls = [], warnings = []\<rparr>"

definition a_result :: monetdbe_result where
  "a_result = \<lparr>res_ptr = 50, ncols = 1, nrows = 2\<rparr>"

definition int32_array :: np_array where
  "int32_array = \<lparr>dtype = ''int32'', shape = [3], buffer = 200\<rparr>"

definition float_array :: np_array where
  "float_array = \<lparr>dtype = ''float64'', shape = [3], buffer = 300\<rparr>"

definition int8_array :: np_array where
  "int8_array = \<lparr>dtype = ''int8'', shape = [3], buffer = 400\<rparr>"

text \<open>
  A table with a column of a type that has no row in the table of types (tag 14), and a
  reader of 32-bit floats that knows the bit patterns of 1.0 and of the lowest finite
  value, for a column of floats whose null value is that lowest value.
\<close>

definition unknown_type_lib :: lib where
  "unknown_type_lib = stub_lib\<lparr>monetdbe_get_columns := (\<lambda>cs h s t. (None, [(''a'', 14)]))\<rparr>"

definition float32_type :: numpy_type where
  "float32_type =
     \<lparr>type_is_object = False, itemsize = 4,
      item = (\<lambda>bs. if bs = [255, 255, 127, 255]
                   then PFloat (Finite (- 340282346638528859811704183484516925440))
                   else if bs = [0, 0, 128, 63] then PFloat (Finite 1) else PFloat NaN)\<rparr>"

definition float_lib :: lib where
  "float_lib = stub_lib\<lparr>
      monetdbe_result_fetch :=
        (\<lambda>cs r c. (None, \<lparr>col_type = 7, col_count = 2, col_name = encode ''b'', col_data = 500\<rparr>)),
      memory := (\<lambda>p. if p = 502 then 128 else if p = 503 then 63
                     else if p = 504 \<or> p = 505 \<or> p = 507 then 255
                     else if p = 506 then 127 else 0),
      monet_numpy_map :=
        [7 \<mapsto> \<lparr>cast_string = ''float'', map_numpy_type = float32_type,
                 monetdbe_null = PFloat (Finite (- 340282346638528859811704183484516925440))\<rparr>]\<rparr>"

text \<open>
  A column passes the loop of \<open>append_loop\<close>: its array has a dtype that maps to the
  column's existing type, and its descriptor can be filled in.
\<close>

definition column_passes :: "lib \<Rightarrow> (string \<times> np_array) list \<Rightarrow> string \<times> int \<Rightarrow> bool" where
  "column_passes L data c =
     (case map_of data (fst c) of
        None \<Rightarrow> False
      | Some a \<Rightarrow>
          (case numpy_monetdb_map L (dtype a) of
             Inl e \<Rightarrow> False
           | Inr wt \<Rightarrow> snd wt = snd c \<and> \<not> isl (fill_column L (fst wt) (snd wt) (fst c) a)))"

definition time_lib :: lib where
  "time_lib = stub_lib\<lparr>monetdbe_result_fetch :=
      (\<lambda>cs r c. (None, \<lparr>col_type = 12, col_count = 2, col_name = encode ''t'', col_data = 100\<rparr>))\<rparr>"

section \<open>Sequences of calls and the engine's open connections\<close>

text \<open>
  The calls a program makes on objects of the class, and the state they leave, whether
  the call returned or raised.
\<close>

datatype op =
    Init
  | Query string bool
  | Prepare string
  | Append string "(string \<times> np_array) list" string
  | Set_autocommit bool
  | In_transaction
  | Get_columns string string
  | Close
  | Cleanup_result "monetdbe_result option"

definition exec :: "lib \<Rightarrow> Internal \<Rightarrow> op \<Rightarrow> world \<Rightarrow> world" where
  "exec L self x w =
     (case x of
        Init \<Rightarrow> snd (init L self w)
      | Query q make_result \<Rightarrow> snd (query L self q make_result w)
      | Prepare q \<Rightarrow> snd (prepare L self q w)
      | Append table data schema \<Rightarrow> snd (append_table L self table data schema w)
      | Set_autocommit v \<Rightarrow> snd (set_autocommit L self v w)
      | In_transaction \<Rightarrow> snd (in_transaction L self w)
      | Get_columns table schema \<Rightarrow> snd (get_columns L self table schema w)
      | Close \<Rightarrow> snd (close L self w)
      | Cleanup_result r \<Rightarrow> snd (cleanup_result L self r w))"

fun run :: "lib \<Rightarrow> (Internal \<times> op) list \<Rightarrow> world \<Rightarrow> world" where
  "run L [] w = w"
| "run L ((self, x) # xs) w = run L xs (exec L self x w)"

text \<open>
  The connections the engine has open after a log: those an \<^verbatim>\<open>open\<close> returned with
  code 0 and no \<^verbatim>\<open>close\<close> has closed with code 0 since.
\<close>

fun live_step :: "pointer list \<Rightarrow> call \<Rightarrow> pointer list" where
  "live_step hs (Call_open url opts rc h) = (if rc = 0 \<and> h \<noteq> 0 then h # hs else hs)"
| "live_step hs (Call_close h rc) = (if rc = 0 then remove1 h hs else hs)"
| "live_step hs _ = hs"

definition live :: "call list \<Rightarrow> pointer list" where
  "live cs = foldl live_step [] cs"

text \<open>The connection an engine call works on, for the calls that take one to work on.\<close>

fun call_handle :: "call \<Rightarrow> pointer option" where
  "call_handle (Call_query h _ _) = Some h"
| "call_handle (Call_set_autocommit h _) = Some h"
| "call_handle (Call_in_transaction h) = Some h"
| "call_handle (Call_append h _ _ _ _) = Some h"
| "call_handle (Call_prepare h _) = Some h"
| "call_handle (Call_get_columns h _ _) = Some h"
| "call_handle (Call_cleanup_result h _) = Some h"
| "call_handle _ = None"

definition on_connection :: "world \<Rightarrow> call \<Rightarrow> bool" where
  "on_connection w c = (connection w \<noteq> None \<and> call_handle c = connection w)"

text \<open>
  \<open>switch_first L self m w\<close>: from the state \<open>w\<close>, the method \<open>m\<close> first does what
  \<^verbatim>\<open>_switch\<close> does. If \<^verbatim>\<open>_switch\<close> raises, \<open>m\<close> raises the same, in the same state. If it
  returns, the log of \<open>m\<close> starts with the log \<^verbatim>\<open>_switch\<close> left; every engine call after it
  works on the connection \<^verbatim>\<open>_switch\<close> left (none of them opens or closes one); and \<open>m\<close>
  ends with this object active and that connection still held.
\<close>

definition switch_first :: "lib \<Rightarrow> Internal \<Rightarrow> 'a action \<Rightarrow> world \<Rightarrow> bool" where
  "switch_first L self m w =
     (case switch L self w of
        (Inl e, w1) \<Rightarrow> m w = (Inl e, w1)
      | (Inr _, w1) \<Rightarrow>
          take (length (calls w1)) (calls (snd (m w))) = calls w1 \<and>
          list_all (on_connection w1) (drop (length (calls w1)) (calls (snd (m w)))) \<and>
          active_context (snd (m w)) = Some (ident self) \<and>
          connection (snd (m w)) = connection w1)"

text \<open>
  The invariant of the class state: the engine's open connections are exactly the one the
  class holds, if any; and when one is held, an object is marked active.
\<close>

definition inv :: "world \<Rightarrow> bool" where
  "inv w = (live (calls w) = held (connection w) \<and>
            (held (connection w) = [] \<or> active_context w \<noteq> None))"

definition demo_ops :: "(Internal \<times> op) list" where
  "demo_ops =
     [(session 1 None, Init),
      (session 2 (Some ''/data/db''), Query ''SELECT 1'' True),
      (session 1 None, In_transaction)]"

text \<open>The bulk-append calls in the log.\<close>

definition is_append :: "call \<Rightarrow> bool" where
  "is_append c = (case c of Call_append _ _ _ _ _ \<Rightarrow> True | _ \<Rightarrow> False)"

definition appends :: "world \<Rightarrow> call list" where
  "appends w = filter is_append (calls w)"

section \<open>Properties\<close>

subsection \<open>Evaluation and sequencing\<close>

lemma str_int_minus_two: "str_int (- 2) = ''-2''"
  by code_simp

lemma str_int_forty_two: "str_int 42 = ''42''"
  by code_simp

lemma open_message_engine:
  "open_message ''engine says no'' (- 2) = ''Failed to open database: engine says no (code -2)''"
  by code_simp

lemma open_message_allocation:
  "open_message ''Allocation failed'' (- 1) = ''Failed to open database: Allocation failed (code -1)''"
  by code_simp

lemma encode_ascii:
  "\<forall>c\<in>set s. (of_char c :: nat) < 128 \<Longrightarrow> encode s = map (\<lambda>c. of_nat (of_char c)) s"
  by (induction s) (auto simp: encode_def encode_char_def utf8_char_def)

lemma bindM_Inr: "m w = (Inr x, w1) \<Longrightarrow> bindM m f w = f x w1"
  by (simp add: bindM_def)

lemma bindM_Inl: "m w = (Inl e, w1) \<Longrightarrow> bindM m f w = (Inl e, w1)"
  by (simp add: bindM_def)

lemma bindM_assoc: "bindM (bindM m g) f = bindM m (\<lambda>x. bindM (g x) f)"
  by (rule ext) (simp add: bindM_def split: prod.splits sum.splits)

lemma switch_active: "active_context w = Some (ident self) \<Longrightarrow> switch L self w = (Inr (), w)"
  by (simp add: switch_def)

lemma switch_active_after: "switch L self w = (Inr u, w1) \<Longrightarrow> active_context w1 = Some (ident self)"
  by (auto simp: switch_def bindM_def Let_def split: if_splits prod.splits sum.splits)

text \<open>A second \<^verbatim>\<open>_switch\<close> right after the first finds the object active and does nothing.\<close>

lemma switch_twice:
  "bindM (switch L self) (\<lambda>_. bindM (switch L self) f) = bindM (switch L self) f"
proof (rule ext)
  fix w
  show "bindM (switch L self) (\<lambda>_. bindM (switch L self) f) w = bindM (switch L self) f w"
  proof (cases "switch L self w")
    case (Pair r w1)
    show ?thesis
    proof (cases r)
      case (Inl e)
      then show ?thesis using Pair by (simp add: bindM_def)
    next
      case (Inr u)
      then have "switch L self w1 = (Inr (), w1)"
        using Pair switch_active_after [of L self w u w1] by (simp add: switch_def)
      then show ?thesis using Pair Inr by (simp add: bindM_def)
    qed
  qed
qed

subsection \<open>Opening a connection\<close>

text \<open>
  C4. When the engine answers \<^verbatim>\<open>monetdbe_open\<close> with a result code other than 0, \<open>open_db\<close>
  raises \<open>OperationalError\<close>. For the code \<open>-2\<close> (error inside the engine) the message
  carries the engine's own error string, and the engine is asked for that string and then
  to close the connection it returned, before the exception leaves. For any other code
  the message is the generic text of the code (\<open>-1\<close>: allocation failed; otherwise
  unknown error), and the only engine call made is the \<^verbatim>\<open>open\<close> itself: the error string
  is not asked for.
\<close>

theorem open_db_nonzero_code:
  assumes "monetdbe_open L (calls w) (open_url L self) (open_options self) = (result_code, conn)"
      and "result_code \<noteq> 0"
  defines "w1 \<equiv> log (Call_open (open_url L self) (open_options self) result_code conn) w"
  shows "(\<exists>m. fst (open_db L self w) = Inl (OperationalError m)) \<and>
     (if result_code = - 2 then
        open_db L self w =
          (Inl (OperationalError (open_message (monetdbe_error L (calls w1) conn) result_code)),
           log (Call_close conn (monetdbe_close L (calls w1 @ [Call_error conn]) conn))
             (log (Call_error conn) w1))
      else
        open_db L self w =
          (Inl (OperationalError
                 (open_message (if result_code = - 1 then ''Allocation failed'' else ''unknown error'')
                    result_code)), w1))"
  using assms by (simp add: open_db_def Let_def errors_def log_def)

theorem open_db_nonzero_code_witness:
  "open_db failing_open (session 1 None) world0 =
     (Inl (OperationalError ''Failed to open database: engine says no (code -2)''),
      world0\<lparr>calls := [Call_open None (open_options (session 1 None)) (- 2) 7,
                        Call_error 7, Call_close 7 0]\<rparr>) \<and>
   open_db out_of_memory (session 1 None) world0 =
     (Inl (OperationalError ''Failed to open database: Allocation failed (code -1)''),
      world0\<lparr>calls := [Call_open None (open_options (session 1 None)) (- 1) 0]\<rparr>)"
  using open_db_nonzero_code [of failing_open world0 "session 1 None" "- 2" 7]
        open_db_nonzero_code [of out_of_memory world0 "session 1 None" "- 1" 0]
        open_message_engine open_message_allocation
  by (simp add: failing_open_def out_of_memory_def stub_lib_def world0_def session_def
        open_url_def log_def)

subsection \<open>Closing\<close>

text \<open>
  C7, as the code has it. \<open>close\<close> asks the engine to close the connection when one is
  held. If the engine reports failure, \<open>close\<close> raises \<open>OperationalError\<close> at once: the
  connection, the active-session marker and the in-memory flag stay as they were. Otherwise
  (no connection held, or the engine closed it) the connection and the active-session
  marker are cleared, and the in-memory flag is set when the object has no storage path.
  A \<open>close\<close> that returned leaves a state on which a second \<open>close\<close> changes nothing.
\<close>

theorem close_outcomes:
  "(case held (connection w) of
      [] \<Rightarrow> close L self w =
              (Inr (), w\<lparr>active_context := None,
                         in_memory_active := (dbdir self = None \<or> in_memory_active w)\<rparr>)
    | h # _ \<Rightarrow>
       if monetdbe_close L (calls w) h \<noteq> 0 then
         close L self w = (Inl (OperationalError ''Failed to close database''),
                           log (Call_close h (monetdbe_close L (calls w) h)) w)
       else
         close L self w =
              (Inr (), w\<lparr>active_context := None, connection := None,
                         in_memory_active := (dbdir self = None \<or> in_memory_active w),
                         calls := calls w @ [Call_close h 0]\<rparr>)) \<and>
   (\<forall>w1. close L self w = (Inr (), w1) \<longrightarrow> close L self w1 = (Inr (), w1))"
  by (auto simp add: close_def held_def log_def Let_def split: option.splits list.splits if_splits)

theorem close_outcomes_witness:
  "close stub_lib (session 1 None) world_file =
     (Inr (), \<lparr>active_context = None, in_memory_active = True, connection = None,
               calls = [Call_close 5 0], warnings = []\<rparr>) \<and>
   close stub_lib (session 1 None)
     \<lparr>active_context = None, in_memory_active = True, connection = None,
      calls = [Call_close 5 0], warnings = []\<rparr> =
     (Inr (), \<lparr>active_context = None, in_memory_active = True, connection = None,
               calls = [Call_close 5 0], warnings = []\<rparr>)"
  using close_outcomes [where w = world_file and L = stub_lib and self = "session 1 None"]
  by (simp add: held_def world_file_def stub_lib_def session_def)

text \<open>
  The engine fails to close a file-backed connection while an in-memory object calls
  \<open>close\<close>: the exception leaves before the flag is set, and the marker is not cleared.
\<close>

theorem close_failure_leaves_flag:
  "dbdir (session 1 None) = None \<and>
   close failing_close (session 1 None) world_file =
     (Inl (OperationalError ''Failed to close database''), world_file\<lparr>calls := [Call_close 5 1]\<rparr>) \<and>
   \<not> in_memory_active (snd (close failing_close (session 1 None) world_file)) \<and>
   active_context (snd (close failing_close (session 1 None) world_file)) = Some 2"
  by (simp add: close_def failing_close_def stub_lib_def world_file_def session_def log_def)

subsection \<open>Releasing a result\<close>

text \<open>
  C3, as the code has it. \<open>cleanup_result\<close> does nothing and does not raise when the
  result is \<^verbatim>\<open>None\<close> or a null pointer, or when the class holds no connection. In every
  other case it asks the engine to release the result, on the connection the class holds,
  and raises what \<^verbatim>\<open>check_error\<close> makes of the engine's answer: nothing records that a
  result was released before.
\<close>

theorem cleanup_result_cases:
  "(case result of
      None \<Rightarrow> cleanup_result L self result w = (Inr (), w)
    | Some r \<Rightarrow>
       (case held (connection w) of
          [] \<Rightarrow> cleanup_result L self result w = (Inr (), w)
        | h # _ \<Rightarrow>
           if res_ptr r = 0 then cleanup_result L self result w = (Inr (), w)
           else cleanup_result L self result w =
                  raise_or L (monetdbe_cleanup_result L (calls w) h (res_ptr r)) ()
                    (log (Call_cleanup_result h (res_ptr r)) w)))"
  by (auto simp add: cleanup_result_def held_def split: option.splits list.splits if_splits)

theorem cleanup_result_cases_witness:
  "cleanup_result stub_lib (session 1 None) None world_open = (Inr (), world_open) \<and>
   cleanup_result stub_lib (session 1 None) (Some a_result) world0 = (Inr (), world0) \<and>
   cleanup_result stub_lib (session 1 None) (Some a_result) world_open =
     (Inr (), world_open\<lparr>calls := [Call_cleanup_result 5 50]\<rparr>)"
  using cleanup_result_cases [where result = None and L = stub_lib and self = "session 1 None"
          and w = world_open]
        cleanup_result_cases [where result = "Some a_result" and L = stub_lib
          and self = "session 1 None" and w = world0]
        cleanup_result_cases [where result = "Some a_result" and L = stub_lib
          and self = "session 1 None" and w = world_open]
  by (simp add: held_def world_open_def world0_def a_result_def stub_lib_def raise_or_def log_def)

text \<open>
  A second \<open>cleanup_result\<close> of the same result, with the connection still held, reaches
  the engine again; an engine that refuses a second release makes it raise.
\<close>

theorem cleanup_result_twice:
  "cleanup_result strict_lib (session 1 None) (Some a_result) world_open =
     (Inr (), world_open\<lparr>calls := [Call_cleanup_result 5 50]\<rparr>) \<and>
   cleanup_result strict_lib (session 1 None) (Some a_result)
       (world_open\<lparr>calls := [Call_cleanup_result 5 50]\<rparr>) =
     (Inl (OperationalError ''result already released''),
      world_open\<lparr>calls := [Call_cleanup_result 5 50, Call_cleanup_result 5 50]\<rparr>)"
  by (simp add: cleanup_result_def strict_lib_def stub_lib_def world_open_def a_result_def
        raise_or_def log_def)

subsection \<open>Binding a parameter\<close>

lemma div_4096: "(n::nat) div 4096 * 64 + n div 64 mod 64 = n div 64"
proof -
  have "n div 4096 = n div 64 div 64" by (simp add: div_mult2_eq [symmetric])
  then show ?thesis by simp
qed

lemma div_262144: "(n::nat) div 262144 * 64 + n div 4096 mod 64 = n div 4096"
proof -
  have "n div 262144 = n div 4096 div 64" by (simp add: div_mult2_eq [symmetric])
  then show ?thesis by simp
qed

lemma utf8_decode_char:
  assumes "encodable n"
  shows "utf8_decode_from 0 0 0 (utf8_char n @ bs) = map_option ((#) n) (utf8_decode_from 0 0 0 bs)"
proof -
  consider "n < 128" | "128 \<le> n" "n < 2048" | "2048 \<le> n" "n < 65536" | "65536 \<le> n" "n < 1114112"
    using assms unfolding encodable_def by arith
  then show ?thesis
  proof cases
    case 1
    then show ?thesis by (simp add: utf8_char_def)
  next
    case 2
    then have a: "n div 64 < 32" by simp
    have b: "n div 64 * 64 + n mod 64 = n" by simp
    show ?thesis using 2 assms by (simp add: utf8_char_def a b)
  next
    case 3
    then have a: "n div 4096 < 16" by simp
    have b: "n div 64 * 64 + n mod 64 = n" by simp
    show ?thesis using 3 assms by (simp add: utf8_char_def div_4096 a b)
  next
    case 4
    then have a: "n div 262144 < 8" by simp
    have b: "n div 64 * 64 + n mod 64 = n" by simp
    show ?thesis using 4 assms by (simp add: utf8_char_def div_4096 div_262144 a b)
  qed
qed

lemma utf8_decode_concat:
  "list_all encodable s \<Longrightarrow> utf8_decode_from 0 0 0 (concat (map utf8_char s)) = Some s"
  by (induction s) (simp_all add: utf8_decode_char)

lemma utf8_char_small: "encodable n \<Longrightarrow> x \<in> set (utf8_char n) \<Longrightarrow> x < 256"
  by (auto simp: utf8_char_def encodable_def split: if_splits)

lemma unat_bytes: "\<forall>x \<in> set xs. x < 256 \<Longrightarrow> map unat (map of_nat xs :: 8 word list) = xs"
  by (induction xs) (simp_all add: unat_of_nat)

lemma str_encode_decode:
  assumes "list_all encodable s"
  shows "\<exists>b. str_encode s = Inr b \<and> utf8_decode b = Some s"
proof -
  have "\<forall>x \<in> set (concat (map utf8_char s)). x < 256"
    using assms by (auto simp: list_all_iff dest: utf8_char_small)
  then have "map unat (map of_nat (concat (map utf8_char s)) :: 8 word list) = concat (map utf8_char s)"
    by (rule unat_bytes)
  then show ?thesis using assms by (simp add: str_encode_def utf8_decode_def utf8_decode_concat)
qed

lemma digit_value: "d < 10 \<Longrightarrow> of_char (char_of (48 + d :: nat)) = (48 + d :: nat)"
  by (simp add: of_char_of)

lemma read_nat_snoc: "read_nat (s @ [c]) = 10 * read_nat s + (of_char c - 48)"
  by (simp add: read_nat_def)

lemma read_nat_str_nat: "read_nat (str_nat n) = n"
proof (induction n rule: str_nat.induct)
  case (1 n)
  show ?case
  proof (cases "n < 10")
    case True
    then show ?thesis by (simp add: str_nat.simps [of n] read_nat_def digit_value)
  next
    case False
    have "n mod 10 < 10" by simp
    then have "of_char (char_of (48 + n mod 10)) = (48 + n mod 10 :: nat)" by (rule digit_value)
    then show ?thesis using False 1 by (simp add: str_nat.simps [of n] read_nat_snoc)
  qed
qed

lemma str_nat_digits: "\<forall>c \<in> set (str_nat n). c \<noteq> CHR ''-''"
proof (induction n rule: str_nat.induct)
  case (1 n)
  have d: "char_of (48 + n mod 10) \<noteq> CHR ''-''"
  proof
    assume "char_of (48 + n mod 10) = CHR ''-''"
    then have "(of_char (char_of (48 + n mod 10)) :: nat) = of_char CHR ''-''" by simp
    moreover have "n mod 10 < 10" by simp
    ultimately show False using digit_value [of "n mod 10"] by simp
  qed
  show ?case
  proof (cases "n < 10")
    case True
    then have "n mod 10 = n" by simp
    then show ?thesis using True d by (simp add: str_nat.simps [of n])
  next
    case False
    then show ?thesis using 1 d by (simp add: str_nat.simps [of n])
  qed
qed

lemma str_nat_nonempty: "str_nat n \<noteq> []"
  by (simp add: str_nat.simps [of n])

lemma read_int_str_int: "read_int (str_int i) = i"
proof (cases "i < 0")
  case True
  then show ?thesis by (simp add: str_int_def read_int_def read_nat_str_nat)
next
  case False
  obtain c r where s: "str_nat (nat i) = c # r"
    using str_nat_nonempty [of "nat i"] by (cases "str_nat (nat i)") auto
  then have "c \<noteq> CHR ''-''" using str_nat_digits [of "nat i"] by auto
  moreover have "read_nat (c # r) = nat i" using read_nat_str_nat [of "nat i"] s by simp
  ultimately show ?thesis using False s by (simp add: str_int_def read_int_def)
qed


text \<open>
  C10, as the code has it. \<open>bind\<close> takes \<^verbatim>\<open>str(data)\<close>, whatever the type of the value, and
  hands the engine its UTF-8 bytes (the bytes a strict UTF-8 reader reads back as that
  text) in one call of \<^verbatim>\<open>monetdbe_bind\<close>, raising what \<^verbatim>\<open>check_error\<close> makes of the answer.
  Before the engine is called it raises what \<^verbatim>\<open>str(data)\<close> raises, \<open>UnicodeEncodeError\<close> when
  the text has a code point without an encoding, and \<open>OverflowError\<close> when the parameter
  number is outside \<^verbatim>\<open>size_t\<close>. The text of a string is the string itself, the text of an
  integer is a decimal numeral that reads back as the integer, the text of a truth value
  and of \<^verbatim>\<open>None\<close> is its name.
\<close>

theorem bind_passes_text:
  "(case py_str L data of
      Inl e \<Rightarrow> bind L statement data parameter_nr w = (Inl e, w)
    | Inr s \<Rightarrow>
        if \<not> list_all encodable s then
          bind L statement data parameter_nr w = (Inl UnicodeEncodeError, w)
        else if \<not> fits_size_t parameter_nr then
          bind L statement data parameter_nr w = (Inl OverflowError, w)
        else
          (\<exists>b. utf8_decode b = Some s \<and>
               bind L statement data parameter_nr w =
                 raise_or L (monetdbe_bind L (calls w) statement b parameter_nr) ()
                   (log (Call_bind statement b parameter_nr) w))) \<and>
   py_str L (PStr t) = Inr t \<and>
   (\<exists>d. py_str L (PInt i) = Inr (pytext d) \<and> read_int d = i) \<and>
   py_str L (PBool v) = Inr (pytext (if v then ''True'' else ''False'')) \<and>
   py_str L PNone = Inr (pytext ''None'')"
proof -
  have "case py_str L data of
      Inl e \<Rightarrow> bind L statement data parameter_nr w = (Inl e, w)
    | Inr s \<Rightarrow>
        if \<not> list_all encodable s then
          bind L statement data parameter_nr w = (Inl UnicodeEncodeError, w)
        else if \<not> fits_size_t parameter_nr then
          bind L statement data parameter_nr w = (Inl OverflowError, w)
        else
          (\<exists>b. utf8_decode b = Some s \<and>
               bind L statement data parameter_nr w =
                 raise_or L (monetdbe_bind L (calls w) statement b parameter_nr) ()
                   (log (Call_bind statement b parameter_nr) w))"
  proof (cases "py_str L data")
    case (Inl e)
    then show ?thesis by (simp add: bind_def)
  next
    case (Inr s)
    show ?thesis
    proof (cases "list_all encodable s")
      case False
      then show ?thesis using Inr by (simp add: bind_def str_encode_def)
    next
      case True
      then obtain b where b: "str_encode s = Inr b" "utf8_decode b = Some s"
        using str_encode_decode by blast
      show ?thesis using Inr True b by (auto simp: bind_def)
    qed
  qed
  moreover have "\<exists>d. py_str L (PInt i) = Inr (pytext d) \<and> read_int d = i"
    using read_int_str_int by auto
  ultimately show ?thesis by simp
qed

text \<open>
  The integer 42 reaches the engine as the two bytes of the text \<^verbatim>\<open>42\<close>, the euro sign as
  its three bytes; a negative parameter number does not reach the engine.
\<close>

lemma str_encode_euro: "str_encode [8364] = Inr [226, 130, 172]"
  by (simp add: str_encode_def encodable_def utf8_char_def)

lemma str_encode_42: "str_encode (pytext (str_int 42)) = Inr [52, 50]"
  by (simp add: str_int_forty_two pytext_def str_encode_def encodable_def utf8_char_def)

theorem bind_passes_text_witness:
  "bind stub_lib 60 (PInt 42) 0 world0 = (Inr (), world0\<lparr>calls := [Call_bind 60 [52, 50] 0]\<rparr>) \<and>
   bind stub_lib 60 (PStr [8364]) 1 world0 =
     (Inr (), world0\<lparr>calls := [Call_bind 60 [226, 130, 172] 1]\<rparr>) \<and>
   utf8_decode [226, 130, 172] = Some [8364] \<and>
   bind stub_lib 60 (PInt 42) (- 1) world0 = (Inl OverflowError, world0)"
  using bind_passes_text [where L = stub_lib and data = "PInt 42" and statement = 60 and parameter_nr = 0
               and w = world0]
        str_encode_euro str_encode_42
  by (simp add: bind_def stub_lib_def world0_def raise_or_def log_def fits_size_t_def
        utf8_decode_def encodable_def)

text \<open>
  A text that holds a lone surrogate has no UTF-8 encoding: \<^verbatim>\<open>encode()\<close> raises and the
  engine is not called.
\<close>

theorem bind_lone_surrogate:
  "py_str stub_lib (PStr [55296]) = Inr [55296] \<and>
   bind stub_lib 60 (PStr [55296]) 0 world0 = (Inl UnicodeEncodeError, world0)"
  by (simp add: bind_def str_encode_def encodable_def)

subsection \<open>Columns of a table and bulk append\<close>

lemma appends_log [simp]: "appends (log c w) = (if is_append c then appends w @ [c] else appends w)"
  by (simp add: appends_def log_def)

lemma appends_update [simp]:
  "appends (w\<lparr>connection := x\<rparr>) = appends w"
  "appends (w\<lparr>active_context := y\<rparr>) = appends w"
  "appends (w\<lparr>in_memory_active := z\<rparr>) = appends w"
  "appends (w\<lparr>warnings := u\<rparr>) = appends w"
  by (simp_all add: appends_def)

lemma close_appends: "appends (snd (close L self w)) = appends w"
  by (simp add: close_def Let_def is_append_def split: option.splits)

lemma open_db_appends: "appends (snd (open_db L self w)) = appends w"
  by (simp add: open_db_def Let_def is_append_def split: prod.splits)

lemma switch_appends: "appends (snd (switch L self w)) = appends w"
proof (cases "active_context w = Some (ident self)")
  case True
  then show ?thesis by (simp add: switch_def)
next
  case False
  obtain r1 w1 where c: "close L self w = (r1, w1)" by (cases "close L self w")
  have a1: "appends w1 = appends w" using close_appends [of L self w] c by simp
  show ?thesis
  proof (cases r1)
    case (Inl e)
    then show ?thesis using False c a1 by (simp add: switch_def bindM_def)
  next
    case (Inr u)
    obtain r2 w2 where d: "open_db L self w1 = (r2, w2)" by (cases "open_db L self w1")
    have a2: "appends w2 = appends w1" using open_db_appends [of L self w1] d by simp
    show ?thesis using False c Inr d a1 a2
      by (cases r2) (simp_all add: switch_def bindM_def Let_def)
  qed
qed

lemma get_columns_appends: "appends (snd (get_columns L self table schema w)) = appends w"
proof (cases "switch L self w")
  case (Pair r w1)
  have a: "appends w1 = appends w" using switch_appends [of L self w] Pair by simp
  show ?thesis using Pair a
    by (cases r)
       (simp_all add: get_columns_def bindM_def with_connection_def is_append_def
          split: option.splits prod.splits)
qed

text \<open>What the engine returns from \<^verbatim>\<open>monetdbe_get_columns\<close> plays no part in the result.\<close>

lemma get_columns_unchecked:
  assumes "switch L self w = (Inr u, w1)" and "connection w1 = Some h"
  shows "get_columns L self table schema w =
           (Inr (snd (monetdbe_get_columns L (calls w1) h (encode schema) (encode table))),
            log (Call_get_columns h (encode schema) (encode table)) w1)"
  using assms by (simp add: get_columns_def bindM_def with_connection_def split: prod.splits)

lemma no_table_get_columns:
  "get_columns no_table_lib (session 1 None) ''missing'' ''sys'' world0 =
     (Inr [],
      \<lparr>active_context = Some 1, in_memory_active = True, connection = Some 1,
       calls = [Call_open None (open_options (session 1 None)) 0 1,
                Call_get_columns 1 (encode ''sys'') (encode ''missing'')],
       warnings = []\<rparr>)"
  by (simp add: get_columns_def switch_def close_def open_db_def open_url_def bindM_def
        with_connection_def no_table_lib_def stub_lib_def world0_def session_def log_def Let_def)

lemma stub_get_columns:
  "get_columns stub_lib (session 1 None) ''t'' ''sys'' world0 =
     (Inr [(''a'', 3), (''b'', 1)],
      \<lparr>active_context = Some 1, in_memory_active = True, connection = Some 1,
       calls = [Call_open None (open_options (session 1 None)) 0 1,
                Call_get_columns 1 (encode ''sys'') (encode ''t'')],
       warnings = []\<rparr>)"
  by (simp add: get_columns_def switch_def close_def open_db_def open_url_def bindM_def
        with_connection_def stub_lib_def world0_def session_def log_def Let_def)

text \<open>
  \<open>append_table\<close> calls \<^verbatim>\<open>_switch\<close> and then \<open>get_columns\<close>, which calls it again; the
  second call does nothing, so \<open>append_table\<close> is \<open>get_columns\<close> followed by the checks.
\<close>

lemma append_table_unfold:
  "append_table L self table data schema =
     bindM (get_columns L self table schema) (append_existing L table data schema)"
  unfolding append_table_def get_columns_def by (simp only: bindM_assoc switch_twice)

text \<open>
  For a table with at least one column, names that differ as sets give
  \<open>ProgrammingError\<close> with both lists of names, and no bulk-append call.
\<close>

lemma append_names_mismatch:
  assumes "get_columns L self table schema w = (Inr cols, w2)"
      and "cols \<noteq> []"
      and "set (map fst cols) \<noteq> set (map fst data)"
  shows "append_table L self table data schema w =
           (Inl (ProgrammingError (names_message (map fst data) (map fst cols))), w2) \<and>
         appends w2 = appends w"
  using assms get_columns_appends [of L self table schema w]
  by (simp add: append_table_unfold bindM_def append_existing_def)

lemma append_no_columns:
  assumes "get_columns L self table schema w = (Inr [], w2)"
  shows "append_table L self table data schema w =
           (Inl (ValueError ''not enough values to unpack''), w2)"
  using assms by (simp add: append_table_unfold bindM_def append_existing_def)

text \<open>
  C8, at an engine that reports failure (no such table): \<open>get_columns\<close> does not raise;
  it returns the empty sequence.
\<close>

theorem get_columns_engine_failure_not_raised:
  "fst (monetdbe_get_columns no_table_lib
          [Call_open None (open_options (session 1 None)) 0 1] 1 (encode ''sys'') (encode ''missing''))
     = Some ''no such table'' \<and>
   fst (get_columns no_table_lib (session 1 None) ''missing'' ''sys'' world0) = Inr []"
  using no_table_get_columns by (simp add: no_table_lib_def)

text \<open>
  C5, at a table the engine does not know: the provided names differ from the (empty) set
  of existing names, and \<open>append_table\<close> raises \<open>ValueError\<close>, from unpacking the empty
  \<^verbatim>\<open>zip\<close>, where the claim has \<open>ProgrammingError\<close>.
\<close>

theorem append_missing_table_value_error:
  "set (map fst [(''a'', int32_array)]) \<noteq> set (map fst ([] :: (string \<times> int) list)) \<and>
   append_table no_table_lib (session 1 None) ''missing'' [(''a'', int32_array)] ''sys'' world0 =
     (Inl (ValueError ''not enough values to unpack''),
      \<lparr>active_context = Some 1, in_memory_active = True, connection = Some 1,
       calls = [Call_open None (open_options (session 1 None)) 0 1,
                Call_get_columns 1 (encode ''sys'') (encode ''missing'')],
       warnings = []\<rparr>)"
  using append_no_columns [OF no_table_get_columns] by simp

text \<open>
  The existing columns are gone through in the order the engine gave them. At the first
  column whose array has a dtype that maps to another type than the column's, the loop
  ends: with \<open>ProgrammingError\<close> and a message that holds the type string of the array, the
  name of the column and the type string of the column's type, when that type has a row
  in the table of types; with \<open>KeyError\<close> when it has none.
\<close>

lemma append_loop_first_mismatch:
  assumes "list_all (column_passes L data) pre"
      and "map_of data column_name = Some column_values"
      and "numpy_monetdb_map L (dtype column_values) = Inr (work_type_string, work_type)"
      and "work_type \<noteq> existing_type"
      and "k + length pre \<le> n_columns"
  shows "append_loop L data n_columns k (pre @ (column_name, existing_type) # post) =
           (case monet_numpy_map L existing_type of
              None \<Rightarrow> Inl KeyError
            | Some entry \<Rightarrow>
                Inl (ProgrammingError
                       (''Type '' @ [CHR 0x27] @ work_type_string @ [CHR 0x27] @
                        '' for appended column '' @ [CHR 0x27] @ column_name @ [CHR 0x27] @
                        '' does not match table type '' @ [CHR 0x27] @ cast_string entry @
                        [CHR 0x27])))"
  using assms
proof (induction pre arbitrary: k)
  case Nil
  then show ?case by (simp add: type_message_def quoted_def split: option.splits)
next
  case (Cons p pre)
  obtain n t where p: "p = (n, t)" by (cases p)
  have pp: "column_passes L data (n, t)" using Cons.prems(1) p by simp
  have k: "k < n_columns" "Suc k + length pre \<le> n_columns" using Cons.prems(5) by simp_all
  have rest: "append_loop L data n_columns (Suc k) (pre @ (column_name, existing_type) # post) =
           (case monet_numpy_map L existing_type of
              None \<Rightarrow> Inl KeyError
            | Some entry \<Rightarrow>
                Inl (ProgrammingError
                       (''Type '' @ [CHR 0x27] @ work_type_string @ [CHR 0x27] @
                        '' for appended column '' @ [CHR 0x27] @ column_name @ [CHR 0x27] @
                        '' does not match table type '' @ [CHR 0x27] @ cast_string entry @
                        [CHR 0x27])))"
    using Cons.IH [of "Suc k"] Cons.prems k by simp
  from pp obtain a ws
    where a: "map_of data n = Some a" "numpy_monetdb_map L (dtype a) = Inr (ws, t)"
      "\<not> isl (fill_column L ws t n a)"
    by (auto simp: column_passes_def split: option.splits sum.splits)
  obtain col where c: "fill_column L ws t n a = Inr col"
    using a(3) by (cases "fill_column L ws t n a") auto
  show ?case using p a c k rest by (simp split: option.splits)
qed

text \<open>
  The same for \<open>append_table\<close>, when the names agree as sets and the engine lists each
  column once: the state is the one \<open>get_columns\<close> left, with no bulk-append call.
\<close>

lemma append_first_mismatch:
  assumes "get_columns L self table schema w = (Inr cols, w2)"
      and "set (map fst cols) = set (map fst data)"
      and "distinct (map fst cols)"
      and "cols = pre @ (column_name, existing_type) # post"
      and "list_all (column_passes L data) pre"
      and "map_of data column_name = Some column_values"
      and "numpy_monetdb_map L (dtype column_values) = Inr (work_type_string, work_type)"
      and "work_type \<noteq> existing_type"
  shows "append_table L self table data schema w =
           (case monet_numpy_map L existing_type of
              None \<Rightarrow> (Inl KeyError, w2)
            | Some entry \<Rightarrow>
                (Inl (ProgrammingError
                       (''Type '' @ [CHR 0x27] @ work_type_string @ [CHR 0x27] @
                        '' for appended column '' @ [CHR 0x27] @ column_name @ [CHR 0x27] @
                        '' does not match table type '' @ [CHR 0x27] @ cast_string entry @
                        [CHR 0x27])), w2)) \<and>
         appends w2 = appends w"
proof -
  have "length cols = card (set (map fst cols))"
    using distinct_card [OF assms(3)] by simp
  also have "\<dots> \<le> length data"
    using assms(2) card_length [of "map fst data"] by simp
  finally have "0 + length pre \<le> length data" using assms(4) by simp
  note l = append_loop_first_mismatch [OF assms(5-8) this, of post]
  have "cols \<noteq> []" using assms(4) by simp
  then show ?thesis
    using assms(1,2,4) l get_columns_appends [of L self table schema w]
    by (simp add: append_table_unfold bindM_def append_existing_def split: option.splits)
qed

lemma unknown_type_get_columns:
  "get_columns unknown_type_lib (session 1 None) ''t'' ''sys'' world0 =
     (Inr [(''a'', 14)],
      \<lparr>active_context = Some 1, in_memory_active = True, connection = Some 1,
       calls = [Call_open None (open_options (session 1 None)) 0 1,
                Call_get_columns 1 (encode ''sys'') (encode ''t'')],
       warnings = []\<rparr>)"
  by (simp add: get_columns_def switch_def close_def open_db_def open_url_def bindM_def
        with_connection_def unknown_type_lib_def stub_lib_def world0_def session_def log_def Let_def)

text \<open>
  C6, at a table whose column \<open>a\<close> has a type without a row in the table of types (tag
  14), with an array whose dtype maps to another type (tag 3): building the message looks
  the existing type up, and \<open>append_table\<close> raises \<open>KeyError\<close> where the claim has
  \<open>ProgrammingError\<close>.
\<close>

theorem append_type_without_row_key_error:
  "numpy_monetdb_map unknown_type_lib (dtype int32_array) = Inr (''int32_t'', 3) \<and>
   monet_numpy_map unknown_type_lib 14 = None \<and>
   append_table unknown_type_lib (session 1 None) ''t'' [(''a'', int32_array)] ''sys'' world0 =
     (Inl KeyError,
      \<lparr>active_context = Some 1, in_memory_active = True, connection = Some 1,
       calls = [Call_open None (open_options (session 1 None)) 0 1,
                Call_get_columns 1 (encode ''sys'') (encode ''t'')],
       warnings = []\<rparr>)"
proof -
  have t: "numpy_monetdb_map unknown_type_lib (dtype int32_array) = Inr (''int32_t'', 3)"
    by (simp add: unknown_type_lib_def stub_lib_def int32_array_def)
  have r: "monet_numpy_map unknown_type_lib 14 = None"
    by (simp add: unknown_type_lib_def stub_lib_def stub_map_def)
  have n: "set (map fst [(''a'', 14::int)]) = set (map fst [(''a'', int32_array)])" by simp
  have d: "distinct (map fst [(''a'', 14::int)])" by simp
  have c: "[(''a'', 14::int)] = [] @ (''a'', 14) # []" by simp
  have p: "list_all (column_passes unknown_type_lib [(''a'', int32_array)]) []" by simp
  have m: "map_of [(''a'', int32_array)] ''a'' = Some int32_array" by simp
  show ?thesis
    using append_first_mismatch [OF unknown_type_get_columns n d c p m t] t r by simp
qed

text \<open>A float array for the 32-bit integer column \<open>a\<close>: the message names both types.\<close>

lemma append_mismatch_message:
  "append_table stub_lib (session 1 None) ''t'' [(''b'', int8_array), (''a'', float_array)] ''sys'' world0 =
     (Inl (ProgrammingError
            (''Type '' @ [CHR 0x27] @ ''double'' @ [CHR 0x27] @ '' for appended column '' @
             [CHR 0x27] @ ''a'' @ [CHR 0x27] @ '' does not match table type '' @
             [CHR 0x27] @ ''int32_t'' @ [CHR 0x27])),
      \<lparr>active_context = Some 1, in_memory_active = True, connection = Some 1,
       calls = [Call_open None (open_options (session 1 None)) 0 1,
                Call_get_columns 1 (encode ''sys'') (encode ''t'')],
       warnings = []\<rparr>)"
proof -
  have n: "set (map fst [(''a'', 3::int), (''b'', 1)]) =
           set (map fst [(''b'', int8_array), (''a'', float_array)])"
    by auto
  have d: "distinct (map fst [(''a'', 3::int), (''b'', 1)])" by simp
  have c: "[(''a'', 3::int), (''b'', 1)] = [] @ (''a'', 3) # [(''b'', 1)]" by simp
  have p: "list_all (column_passes stub_lib [(''b'', int8_array), (''a'', float_array)]) []" by simp
  have m: "map_of [(''b'', int8_array), (''a'', float_array)] ''a'' = Some float_array" by simp
  have t: "numpy_monetdb_map stub_lib (dtype float_array) = Inr (''double'', 8)"
    by (simp add: stub_lib_def float_array_def)
  have e: "monet_numpy_map stub_lib 3 =
     Some \<lparr>cast_string = ''int32_t'', map_numpy_type = int8_type, monetdbe_null = PInt (- 2147483648)\<rparr>"
    by (simp add: stub_lib_def stub_map_def)
  show ?thesis using append_first_mismatch [OF stub_get_columns n d c p m t] e by simp
qed

subsection \<open>Results as arrays\<close>

lemma make_string_b: "make_string stub_lib (encode ''b'') = ''b''"
  by code_simp

lemma make_string_t: "make_string stub_lib (encode ''t'') = ''t''"
  by code_simp

text \<open>For a result of one column, \<open>result_fetch_numpy\<close> is the loop body, run once.\<close>

lemma result_fetch_numpy_one_column:
  assumes "ncols result = 1" and "fetch_numpy_column L result 0 w = (Inr (name, masked), w1)"
  shows "result_fetch_numpy L result w = (Inr [name \<mapsto> masked], w1)"
  using assms by (simp add: result_fetch_numpy_def)

lemma extract_all_total:
  "\<forall>r \<in> set rs. \<exists>v. extract_value L rcol r = Inr v \<Longrightarrow>
   \<exists>vs. extract_all L rcol rs = Inr vs \<and> length vs = length rs"
  by (induction rs) auto

text \<open>
  C2. Let the engine deliver column \<open>c\<close>, with a type whose numpy type is not the object
  type and has items of a size above 0, and let the null value of the type be \<^verbatim>\<open>None\<close> or a
  value that is true in a test (a number other than 0; every null value of the table of
  types is one or the other). Then the data of the masked array is the view of the
  column's own buffer, with as many items as the result has rows, each item read from
  the buffer's bytes at its place. When the type has a null value, the mask holds at
  every place whether the item equals the null value; when it has none, the mask is
  \<^verbatim>\<open>nomask\<close>.
\<close>

theorem fetch_numpy_column_fixed_width:
  assumes "result_fetch L result c w = (Inr rcol, w1)"
      and "monet_numpy_map L (col_type rcol) = Some entry"
      and "\<not> type_is_object (map_numpy_type entry)"
      and "0 < itemsize (map_numpy_type entry)"
      and "monetdbe_null entry = PNone \<or> truthy (monetdbe_null entry)"
  defines "np_col \<equiv> Frombuffer (col_data rcol) (nrows result) (map_numpy_type entry)"
  shows "(\<exists>m. fetch_numpy_column L result c w =
                (Inr (make_string L (col_name rcol), \<lparr>ma_data = np_col, ma_mask = m\<rparr>), w1) \<and>
              (if monetdbe_null entry = PNone then m = Nomask
               else \<exists>bs. m = Mask bs \<and> length bs = nrows result \<and>
                      (\<forall>i < nrows result.
                         bs ! i = py_eq (items L np_col ! i) (monetdbe_null entry)))) \<and>
         length (items L np_col) = nrows result \<and>
         (\<forall>i < nrows result.
            items L np_col ! i =
              item (map_numpy_type entry)
                (map (\<lambda>k. memory L (col_data rcol + i * itemsize (map_numpy_type entry) + k))
                   [0..<itemsize (map_numpy_type entry)]))"
  using assms by (auto simp add: fetch_numpy_column_def bindM_def Let_def)

lemma items_int8: "items stub_lib (Frombuffer 100 2 int8_type) = [PInt 5, PInt (- 128)]"
  by (simp add: stub_lib_def int8_type_def upt_rec numeral_2_eq_2)

lemma items_float32:
  "items float_lib (Frombuffer 500 2 float32_type) =
     [PFloat (Finite 1), PFloat (Finite (- 340282346638528859811704183484516925440))]"
  by (simp add: float_lib_def stub_lib_def float32_type_def upt_rec eval_nat_numeral)

theorem fetch_numpy_column_fixed_width_witness:
  "fetch_numpy_column stub_lib a_result 0 world0 =
     (Inr (''b'', \<lparr>ma_data = Frombuffer 100 2 int8_type, ma_mask = Mask [False, True]\<rparr>),
      world0\<lparr>calls := [Call_result_fetch 50 0]\<rparr>) \<and>
   items stub_lib (Frombuffer 100 2 int8_type) = [PInt 5, PInt (- 128)] \<and>
   fst (fetch_numpy_column float_lib a_result 0 world0) =
     Inr (''b'', \<lparr>ma_data = Frombuffer 500 2 float32_type, ma_mask = Mask [False, True]\<rparr>) \<and>
   items float_lib (Frombuffer 500 2 float32_type) =
     [PFloat (Finite 1), PFloat (Finite (- 340282346638528859811704183484516925440))]"
proof -
  have f: "result_fetch stub_lib a_result 0 world0 =
      (Inr \<lparr>col_type = 1, col_count = 2, col_name = encode ''b'', col_data = 100\<rparr>,
       world0\<lparr>calls := [Call_result_fetch 50 0]\<rparr>)"
    by (simp add: result_fetch_def stub_lib_def a_result_def raise_or_def log_def world0_def)
  have e: "monet_numpy_map stub_lib
             (col_type \<lparr>col_type = 1, col_count = 2, col_name = encode ''b'', col_data = 100\<rparr>) =
      Some \<lparr>cast_string = ''int8_t'', map_numpy_type = int8_type, monetdbe_null = PInt (- 128)\<rparr>"
    by (simp add: stub_lib_def stub_map_def)
  have t: "\<not> type_is_object (map_numpy_type
      \<lparr>cast_string = ''int8_t'', map_numpy_type = int8_type, monetdbe_null = PInt (- 128)\<rparr>)"
    by (simp add: int8_type_def)
  have z: "0 < itemsize (map_numpy_type
      \<lparr>cast_string = ''int8_t'', map_numpy_type = int8_type, monetdbe_null = PInt (- 128)\<rparr>)"
    by (simp add: int8_type_def)
  have n: "monetdbe_null
      \<lparr>cast_string = ''int8_t'', map_numpy_type = int8_type, monetdbe_null = PInt (- 128)\<rparr> = PNone \<or>
     truthy (monetdbe_null
      \<lparr>cast_string = ''int8_t'', map_numpy_type = int8_type, monetdbe_null = PInt (- 128)\<rparr>)"
    by simp
  have a: "fetch_numpy_column stub_lib a_result 0 world0 =
     (Inr (''b'', \<lparr>ma_data = Frombuffer 100 2 int8_type, ma_mask = Mask [False, True]\<rparr>),
      world0\<lparr>calls := [Call_result_fetch 50 0]\<rparr>)"
    using f e t z items_int8 make_string_b
    by (simp del: items.simps add: fetch_numpy_column_def bindM_def Let_def a_result_def)
  have m: "make_string float_lib (encode ''b'') = ''b''"
    using make_string_b by (simp add: float_lib_def stub_lib_def)
  have g: "result_fetch float_lib a_result 0 world0 =
      (Inr \<lparr>col_type = 7, col_count = 2, col_name = encode ''b'', col_data = 500\<rparr>,
       world0\<lparr>calls := [Call_result_fetch 50 0]\<rparr>)"
    by (simp add: result_fetch_def float_lib_def stub_lib_def a_result_def raise_or_def log_def
          world0_def)
  have h: "monet_numpy_map float_lib 7 =
      Some \<lparr>cast_string = ''float'', map_numpy_type = float32_type,
            monetdbe_null = PFloat (Finite (- 340282346638528859811704183484516925440))\<rparr>"
    by (simp add: float_lib_def)
  have u: "\<not> type_is_object float32_type" "itemsize float32_type = 4"
    by (simp_all add: float32_type_def)
  have b: "fst (fetch_numpy_column float_lib a_result 0 world0) =
     Inr (''b'', \<lparr>ma_data = Frombuffer 500 2 float32_type, ma_mask = Mask [False, True]\<rparr>)"
    using g h u items_float32 m
    by (simp del: items.simps add: fetch_numpy_column_def bindM_def Let_def a_result_def)
  show ?thesis using fetch_numpy_column_fixed_width [OF f e t z n] a b items_int8 items_float32 by simp
qed

text \<open>
  C9. Let the engine deliver column \<open>c\<close> with the time-of-day type, the table of types
  give that type the object type, and the rows be extracted without an exception. Then
  \<open>fetch_numpy_column\<close> returns: the array holds the extracted values as they are (no
  \<^verbatim>\<open>astype\<close> is applied), it comes with its mask, and one warning has been issued.
\<close>

theorem fetch_numpy_column_time:
  assumes "result_fetch L result c w = (Inr rcol, w1)"
      and "col_type rcol = monetdbe_time L"
      and "monetdbe_time L \<noteq> monetdbe_str L"
      and "monetdbe_time L \<noteq> monetdbe_date L"
      and "monet_numpy_map L (monetdbe_time L) = Some entry"
      and "type_is_object (map_numpy_type entry)"
      and "extract_all L rcol [0..<nrows result] = Inr vals"
  shows "fetch_numpy_column L result c w =
           (Inr (make_string L (col_name rcol),
                 \<lparr>ma_data = Array vals,
                  ma_mask = (if truthy (monetdbe_null entry)
                             then Mask (map (\<lambda>x. py_eq x (monetdbe_null entry)) vals)
                             else Nomask)\<rparr>),
            w1\<lparr>warnings := warnings w1 @ [time_warning]\<rparr>)"
  using assms by (simp add: fetch_numpy_column_def bindM_def Let_def as_array_def)

theorem fetch_numpy_column_time_witness:
  "fetch_numpy_column time_lib a_result 0 world0 =
     (Inr (''t'', \<lparr>ma_data = Array [PObj 0, PObj 1], ma_mask = Nomask\<rparr>),
      world0\<lparr>calls := [Call_result_fetch 50 0], warnings := [time_warning]\<rparr>)"
proof -
  have f: "result_fetch time_lib a_result 0 world0 =
      (Inr \<lparr>col_type = 12, col_count = 2, col_name = encode ''t'', col_data = 100\<rparr>,
       world0\<lparr>calls := [Call_result_fetch 50 0]\<rparr>)"
    by (simp add: result_fetch_def time_lib_def stub_lib_def a_result_def raise_or_def log_def
          world0_def)
  have e: "monet_numpy_map time_lib (monetdbe_time time_lib) =
      Some \<lparr>cast_string = ''time'', map_numpy_type = object_type, monetdbe_null = PNone\<rparr>"
    by (simp add: time_lib_def stub_lib_def stub_map_def)
  have x: "extract_all time_lib
             \<lparr>col_type = 12, col_count = 2, col_name = encode ''t'', col_data = 100\<rparr>
             [0..<nrows a_result] = Inr [PObj 0, PObj 1]"
    by (simp add: time_lib_def stub_lib_def a_result_def upt_rec numeral_2_eq_2)
  have m: "make_string time_lib (encode ''t'') = ''t''"
    using make_string_t by (simp add: time_lib_def stub_lib_def)
  have "fetch_numpy_column time_lib a_result 0 world0 =
     (Inr (make_string time_lib (encode ''t''),
           \<lparr>ma_data = Array [PObj 0, PObj 1], ma_mask = Nomask\<rparr>),
      world0\<lparr>calls := [Call_result_fetch 50 0], warnings := [time_warning]\<rparr>)"
    using fetch_numpy_column_time [OF f _ _ _ e _ x]
    by (simp add: time_lib_def stub_lib_def object_type_def world0_def)
  then show ?thesis using m by simp
qed

subsection \<open>One connection, held by the active object\<close>

lemma live_log [simp]: "live (calls (log c w)) = live_step (live (calls w)) c"
  by (simp add: live_def log_def)

lemma close_inv: "inv w \<Longrightarrow> inv (snd (close L self w))"
  by (auto simp: inv_def close_def held_def Let_def log_def live_def split: option.splits if_splits)

lemma close_released:
  "close L self w = (Inr u, w1) \<Longrightarrow> inv w \<Longrightarrow> held (connection w1) = [] \<and> live (calls w1) = []"
  by (auto simp: inv_def close_def held_def Let_def log_def live_def split: option.splits if_splits)

lemma close_calls:
  "close L self w = (Inr u, w1) \<Longrightarrow>
     calls w1 = calls w @ map (\<lambda>h. Call_close h 0) (held (connection w))"
  by (auto simp: close_def held_def Let_def log_def split: option.splits if_splits)

lemma open_db_Inr:
  "open_db L self w = (Inr c, w1) \<Longrightarrow>
     w1 = log (Call_open (open_url L self) (open_options self) 0 c) w"
  by (auto simp: open_db_def Let_def split: prod.splits if_splits)

lemma open_db_Inl:
  "open_db L self w = (Inl e, w1) \<Longrightarrow> live (calls w) = [] \<Longrightarrow>
     live (calls w1) = [] \<and> connection w1 = connection w \<and> active_context w1 = active_context w"
  by (auto simp: open_db_def Let_def log_def live_def split: prod.splits if_splits)

text \<open>
  A \<^verbatim>\<open>_switch\<close> by an object that is not the active one, when it returns, has closed the
  connection held (if any) and opened its own, in this order and with nothing else.
\<close>

lemma switch_changes:
  assumes "active_context w \<noteq> Some (ident self)" and "switch L self w = (Inr u, w1)"
  shows "\<exists>c. calls w1 = calls w @ map (\<lambda>h. Call_close h 0) (held (connection w)) @
                 [Call_open (open_url L self) (open_options self) 0 c] \<and>
             connection w1 = Some c \<and> active_context w1 = Some (ident self)"
proof -
  obtain r1 w2 where c: "close L self w = (r1, w2)" by (cases "close L self w")
  obtain r2 w3 where d: "open_db L self w2 = (r2, w3)" by (cases "open_db L self w2")
  from assms c d obtain u1 cn where r: "r1 = Inr u1" "r2 = Inr cn"
    by (cases r1; cases r2) (auto simp: switch_def bindM_def)
  have w3: "w3 = log (Call_open (open_url L self) (open_options self) 0 cn) w2"
    using open_db_Inr d r by simp
  have w2: "calls w2 = calls w @ map (\<lambda>h. Call_close h 0) (held (connection w))"
    using close_calls c r by simp
  show ?thesis using assms c d r w3 w2
    by (auto simp: switch_def bindM_def Let_def log_def)
qed

lemma switch_inv:
  assumes "inv w"
  shows "inv (snd (switch L self w))"
proof (cases "active_context w = Some (ident self)")
  case True
  then show ?thesis using assms by (simp add: switch_def)
next
  case False
  obtain r1 w2 where c: "close L self w = (r1, w2)" by (cases "close L self w")
  have i2: "inv w2" using close_inv [OF assms, of L self] c by simp
  show ?thesis
  proof (cases r1)
    case (Inl e)
    then show ?thesis using False c i2 by (simp add: switch_def bindM_def)
  next
    case (Inr u)
    have rel: "held (connection w2) = []" "live (calls w2) = []"
      using close_released [of L self w u w2] c Inr assms by simp_all
    obtain r2 w3 where d: "open_db L self w2 = (r2, w3)" by (cases "open_db L self w2")
    show ?thesis
    proof (cases r2)
      case (Inl e)
      have "live (calls w3) = [] \<and> connection w3 = connection w2"
        using open_db_Inl [of L self w2 e w3] d Inl rel by simp
      then have "inv w3" using rel by (simp add: inv_def)
      then show ?thesis using False c Inr d Inl by (simp add: switch_def bindM_def)
    next
      case r: (Inr cn)
      have w3: "w3 = log (Call_open (open_url L self) (open_options self) 0 cn) w2"
        using open_db_Inr d r by simp
      show ?thesis using False c Inr d r w3 rel
        by (simp add: switch_def bindM_def Let_def inv_def held_def log_def live_def)
    qed
  qed
qed

lemma live_on_connection:
  "list_all (on_connection w1) cs \<Longrightarrow> foldl live_step hs cs = hs"
proof (induction cs arbitrary: hs)
  case Nil
  then show ?case by simp
next
  case (Cons c cs)
  then have "live_step hs c = hs" by (cases c) (auto simp: on_connection_def)
  then show ?case using Cons by simp
qed

lemma switch_first_inv:
  assumes "switch_first L self m w" and "inv w"
  shows "inv (snd (m w))"
proof (cases "switch L self w")
  case (Pair r w1)
  have i1: "inv w1" using switch_inv [OF assms(2), of L self] Pair by simp
  show ?thesis
  proof (cases r)
    case (Inl e)
    then show ?thesis using assms(1) Pair i1 by (simp add: switch_first_def)
  next
    case (Inr u)
    let ?w = "snd (m w)"
    have t: "take (length (calls w1)) (calls ?w) = calls w1"
      and o: "list_all (on_connection w1) (drop (length (calls w1)) (calls ?w))"
      and a: "active_context ?w = Some (ident self)"
      and c: "connection ?w = connection w1"
      using assms(1) Pair Inr by (simp_all add: switch_first_def)
    have "calls ?w = calls w1 @ drop (length (calls w1)) (calls ?w)"
      using t append_take_drop_id [of "length (calls w1)" "calls ?w"] by simp
    then have "live (calls ?w) =
        foldl live_step (live (calls w1)) (drop (length (calls w1)) (calls ?w))"
      unfolding live_def by (metis foldl_append)
    then have "live (calls ?w) = live (calls w1)"
      using live_on_connection [OF o] by simp
    then show ?thesis using i1 a c by (simp add: inv_def)
  qed
qed

lemma switch_firstI:
  assumes "\<And>u w1. switch L self w = (Inr u, w1) \<Longrightarrow> active_context w1 = Some (ident self) \<Longrightarrow>
             take (length (calls w1)) (calls (snd (g w1))) = calls w1 \<and>
             list_all (on_connection w1) (drop (length (calls w1)) (calls (snd (g w1)))) \<and>
             active_context (snd (g w1)) = Some (ident self) \<and>
             connection (snd (g w1)) = connection w1"
  shows "switch_first L self (bindM (switch L self) (\<lambda>_. g)) w"
proof (cases "switch L self w")
  case (Pair r w1)
  show ?thesis
  proof (cases r)
    case (Inl e)
    then show ?thesis using Pair by (simp add: switch_first_def bindM_def)
  next
    case (Inr u)
    then show ?thesis
      using Pair assms [of u w1] switch_active_after [of L self w u w1]
      by (simp add: switch_first_def bindM_def)
  qed
qed

lemma query_switch_first: "switch_first L self (query L self q make_result) w"
  unfolding query_def
  by (rule switch_firstI)
     (auto simp: with_connection_def raise_or_def log_def on_connection_def
        split: option.splits prod.splits)

lemma prepare_switch_first: "switch_first L self (prepare L self q) w"
  unfolding prepare_def
  by (rule switch_firstI)
     (auto simp: with_connection_def raise_or_def log_def on_connection_def
        split: option.splits prod.splits)

lemma set_autocommit_switch_first: "switch_first L self (set_autocommit L self v) w"
  unfolding set_autocommit_def
  by (rule switch_firstI)
     (auto simp: with_connection_def raise_or_def log_def on_connection_def Let_def
        split: option.splits prod.splits)

lemma in_transaction_switch_first: "switch_first L self (in_transaction L self) w"
  unfolding in_transaction_def
  by (rule switch_firstI)
     (auto simp: with_connection_def raise_or_def log_def on_connection_def
        split: option.splits prod.splits)

lemma get_columns_switch_first: "switch_first L self (get_columns L self table schema) w"
  unfolding get_columns_def
  by (rule switch_firstI)
     (auto simp: with_connection_def raise_or_def log_def on_connection_def
        split: option.splits prod.splits)

lemma append_table_switch_first: "switch_first L self (append_table L self table data schema) w"
  unfolding append_table_def
proof (rule switch_firstI)
  fix u w1
  assume "switch L self w = (Inr u, w1)" and a: "active_context w1 = Some (ident self)"
  let ?g = "bindM (get_columns L self table schema) (append_existing L table data schema)"
  have s: "switch L self w1 = (Inr (), w1)" using a by (simp add: switch_def)
  show "take (length (calls w1)) (calls (snd (?g w1))) = calls w1 \<and>
        list_all (on_connection w1) (drop (length (calls w1)) (calls (snd (?g w1)))) \<and>
        active_context (snd (?g w1)) = Some (ident self) \<and>
        connection (snd (?g w1)) = connection w1"
    using s a
    by (auto simp: get_columns_def append_existing_def bindM_def with_connection_def raise_or_def
          log_def on_connection_def Let_def split: option.splits prod.splits sum.splits)
qed

lemma cleanup_result_inv: "inv w \<Longrightarrow> inv (snd (cleanup_result L self r w))"
  by (auto simp: cleanup_result_def raise_or_def inv_def log_def live_def held_def
        split: option.splits if_splits)

lemma exec_inv: "inv w \<Longrightarrow> inv (exec L self x w)"
  by (cases x)
     (simp_all add: exec_def init_def switch_inv close_inv cleanup_result_inv
        switch_first_inv [OF query_switch_first] switch_first_inv [OF prepare_switch_first]
        switch_first_inv [OF append_table_switch_first]
        switch_first_inv [OF set_autocommit_switch_first]
        switch_first_inv [OF in_transaction_switch_first]
        switch_first_inv [OF get_columns_switch_first])

lemma run_inv: "inv w \<Longrightarrow> inv (run L xs w)"
  by (induction xs arbitrary: w) (auto simp: exec_inv)

lemma inv_world0: "inv world0"
  by (simp add: inv_def world0_def live_def held_def)

lemma held_le_one: "length (held c) \<le> 1"
  by (simp add: held_def split: option.splits)

text \<open>
  C1. \<^verbatim>\<open>_switch\<close> does nothing when the object is the active one. Otherwise, when it
  returns, it has asked the engine to close the connection held (if one was) and then to
  open this object's database, and has stored the new connection and marked this object
  active. Each of \<open>query\<close>, \<open>prepare\<close>, \<open>append_table\<close>, \<open>set_autocommit\<close>, \<open>in_transaction\<close>
  and \<open>get_columns\<close> starts with \<^verbatim>\<open>_switch\<close> (\<open>switch_first\<close>): its other engine calls come
  after and work on the connection \<^verbatim>\<open>_switch\<close> left. So after any sequence of calls on any
  objects, from the initial state of the class, the connections the engine has open are
  the one the class holds, at most one, and while one is held an object is marked active.
\<close>

theorem switch_discipline:
  "(active_context w = Some (ident self) \<longrightarrow> switch L self w = (Inr (), w)) \<and>
   (active_context w \<noteq> Some (ident self) \<longrightarrow>
      (\<forall>w1. switch L self w = (Inr (), w1) \<longrightarrow>
         (\<exists>c. calls w1 = calls w @ map (\<lambda>h. Call_close h 0) (held (connection w)) @
                   [Call_open (open_url L self) (open_options self) 0 c] \<and>
               connection w1 = Some c \<and> active_context w1 = Some (ident self)))) \<and>
   switch_first L self (query L self q make_result) w \<and>
   switch_first L self (prepare L self q) w \<and>
   switch_first L self (append_table L self table data schema) w \<and>
   switch_first L self (set_autocommit L self v) w \<and>
   switch_first L self (in_transaction L self) w \<and>
   switch_first L self (get_columns L self table schema) w \<and>
   live (calls (run L xs world0)) = held (connection (run L xs world0)) \<and>
   length (live (calls (run L xs world0))) \<le> 1 \<and>
   (held (connection (run L xs world0)) = [] \<or> active_context (run L xs world0) \<noteq> None)"
proof -
  have i: "inv (run L xs world0)" using run_inv [OF inv_world0] .
  then have l: "live (calls (run L xs world0)) = held (connection (run L xs world0))"
    by (simp add: inv_def)
  show ?thesis
    using i l held_le_one [of "connection (run L xs world0)"] switch_changes [of w self L "()"]
      query_switch_first prepare_switch_first append_table_switch_first
      set_autocommit_switch_first in_transaction_switch_first get_columns_switch_first
    by (simp add: inv_def switch_def)
qed

lemma run_demo_ops:
  "run stub_lib demo_ops world0 =
     \<lparr>active_context = Some 1, in_memory_active = True, connection = Some 6,
      calls = [Call_open None (open_options (session 1 None)) 0 1,
               Call_close 1 0,
               Call_open (Some (encode ''/data/db'')) (open_options (session 2 (Some ''/data/db''))) 0 3,
               Call_query 3 (encode ''SELECT 1'') True,
               Call_close 3 0,
               Call_open None (open_options (session 1 None)) 0 6,
               Call_in_transaction 6],
      warnings = []\<rparr>"
  by (simp add: demo_ops_def exec_def init_def query_def in_transaction_def switch_def close_def
        open_db_def open_url_def open_options_def bindM_def with_connection_def raise_or_def
        stub_lib_def world0_def session_def log_def Let_def)

theorem switch_discipline_witness:
  "switch stub_lib (session 1 None) world_open = (Inr (), world_open) \<and>
   switch stub_lib (session 1 None) world_file =
     (Inr (), \<lparr>active_context = Some 1, in_memory_active = True, connection = Some 2,
               calls = [Call_close 5 0, Call_open None (open_options (session 1 None)) 0 2],
               warnings = []\<rparr>) \<and>
   switch_first stub_lib (session 1 None) (query stub_lib (session 1 None) ''SELECT 1'' True)
     world_file \<and>
   live (calls (run stub_lib demo_ops world0)) = [6] \<and>
   connection (run stub_lib demo_ops world0) = Some 6 \<and>
   active_context (run stub_lib demo_ops world0) = Some 1"
proof -
  have a: "active_context world_open = Some (ident (session 1 None))"
    by (simp add: world_open_def session_def)
  have b: "active_context world_file \<noteq> Some (ident (session 1 None))"
    by (simp add: world_file_def session_def)
  have s: "switch stub_lib (session 1 None) world_file =
     (Inr (), \<lparr>active_context = Some 1, in_memory_active = True, connection = Some 2,
               calls = [Call_close 5 0, Call_open None (open_options (session 1 None)) 0 2],
               warnings = []\<rparr>)"
    by (simp add: switch_def close_def open_db_def open_url_def bindM_def stub_lib_def
          world_file_def session_def log_def Let_def)
  have c: "connection (run stub_lib demo_ops world0) = Some 6"
          "active_context (run stub_lib demo_ops world0) = Some 1"
    by (simp_all add: run_demo_ops)
  show ?thesis
    using switch_discipline [where w = world_open and self = "session 1 None" and L = stub_lib
            and xs = demo_ops] a
          switch_discipline [where w = world_file and self = "session 1 None" and L = stub_lib
            and q = "''SELECT 1''" and make_result = True] b s c
    by (simp add: held_def)
qed

end
